theory Spec2Isabelle
  imports Complex_Main
begin

section \<open>Python values used by \<open>overview.py\<close>\<close>

text \<open>
  A Python float is either NaN or a finite number; a finite float is identified with the
  real number it denotes, so a decimal literal such as \<open>0.8\<close> is the real \<open>0.8\<close> and
  comparisons are comparisons of reals. Infinities are left out: no literal of the module is
  one, and a sum that overflows to infinity in the code is outside the model.
  Every comparison with NaN is false, as in Python.
\<close>

datatype pyfloat = NaN | Fin real

fun isnan :: "pyfloat \<Rightarrow> bool" where
  "isnan NaN = True"
| "isnan (Fin x) = False"

fun fgt :: "pyfloat \<Rightarrow> real \<Rightarrow> bool" where
  "fgt (Fin x) c = (x > c)"
| "fgt NaN c = False"

fun fge :: "pyfloat \<Rightarrow> real \<Rightarrow> bool" where
  "fge (Fin x) c = (x \<ge> c)"
| "fge NaN c = False"

text \<open>An exception carries its message (what \<open>f"{e}"\<close> prints).\<close>

datatype exn = Exception string

datatype kwval = KBool bool | KReal real | KStr string

type_synonym kwargs = "(string \<times> kwval) list"

text \<open>
  A \<open>pathlib.Path\<close> is kept symbolic: the path made from a string, or the \<open>.parent\<close> of a
  path. The \<open>save_path\<close> argument is a string or a path object.
\<close>

datatype path = Path string | Parent path

datatype path_arg = Str string | PathObj path

fun to_path :: "path_arg \<Rightarrow> path" where
  "to_path (Str s) = Path s"
| "to_path (PathObj p) = p"

text \<open>Python truthiness of \<open>save_path\<close>: \<open>None\<close> and the empty string are falsy, a path
  object is always truthy.\<close>

fun truthy :: "path_arg option \<Rightarrow> bool" where
  "truthy None = False"
| "truthy (Some (Str s)) = (s \<noteq> [])"
| "truthy (Some (PathObj p)) = True"

text \<open>
  Formatted text is kept as the format it was built with instead of the characters printed:
  \<open>Thousands n\<close> is \<open>f"{n:,}"\<close>, \<open>Fixed k x\<close> is \<open>f"{x:.kf}"\<close>, \<open>OfInt\<close>, \<open>OfPath\<close> and \<open>OfExn\<close>
  are \<open>f"{v}"\<close>, \<open>TitleCase k\<close> is \<open>k.replace('_', ' ').title()\<close>, \<open>Lower t\<close> is \<open>t.lower()\<close>,
  \<open>Cat\<close> is concatenation and \<open>Lines\<close> is \<open>"\n".join\<close>.
\<close>

datatype fstr =
    Lit string
  | Thousands nat
  | Fixed nat pyfloat
  | OfInt int
  | OfPath path
  | OfExn exn
  | TitleCase string
  | Lower string
  | Cat "fstr list"
  | Lines "fstr list"

datatype level = INFO | WARNING | ERROR

subsection \<open>Dictionaries\<close>

text \<open>A \<open>dict\<close> is an association list in insertion order with distinct keys.\<close>

fun setitem :: "'k \<Rightarrow> 'v \<Rightarrow> ('k \<times> 'v) list \<Rightarrow> ('k \<times> 'v) list" where
  "setitem k v [] = [(k, v)]"
| "setitem k v ((k', v') # d) = (if k' = k then (k, v) # d else (k', v') # setitem k v d)"

definition dict_keys :: "('k \<times> 'v) list \<Rightarrow> 'k list" where
  "dict_keys d = map fst d"

definition dict_values :: "('k \<times> 'v) list \<Rightarrow> 'v list" where
  "dict_values d = map snd d"

text \<open>\<open>d.get(k, default)\<close>\<close>

definition get :: "('k \<times> 'v) list \<Rightarrow> 'k \<Rightarrow> 'v \<Rightarrow> 'v" where
  "get d k dflt = (case map_of d k of Some v \<Rightarrow> v | None \<Rightarrow> dflt)"

subsection \<open>numpy reductions\<close>

fun fmin :: "pyfloat \<Rightarrow> pyfloat \<Rightarrow> pyfloat" where
  "fmin (Fin a) (Fin b) = Fin (min a b)"
| "fmin a b = NaN"

fun fmax :: "pyfloat \<Rightarrow> pyfloat \<Rightarrow> pyfloat" where
  "fmax (Fin a) (Fin b) = Fin (max a b)"
| "fmax a b = NaN"

fun fadd :: "pyfloat \<Rightarrow> pyfloat \<Rightarrow> pyfloat" where
  "fadd (Fin a) (Fin b) = Fin (a + b)"
| "fadd a b = NaN"

fun fdivn :: "pyfloat \<Rightarrow> nat \<Rightarrow> pyfloat" where
  "fdivn (Fin a) n = Fin (a / real n)"
| "fdivn NaN n = NaN"

fun fsqdiff :: "pyfloat \<Rightarrow> pyfloat \<Rightarrow> pyfloat" where
  "fsqdiff (Fin m) (Fin a) = Fin ((a - m)\<^sup>2)"
| "fsqdiff m a = NaN"

fun fsqrt :: "pyfloat \<Rightarrow> pyfloat" where
  "fsqrt (Fin a) = Fin (sqrt a)"
| "fsqrt NaN = NaN"

text \<open>\<open>ndarray.min()\<close> and \<open>max()\<close> raise ValueError on an empty array and propagate NaN.\<close>

definition np_min :: "pyfloat list \<Rightarrow> exn + pyfloat" where
  "np_min xs = (case xs of
       [] \<Rightarrow> Inl (Exception ''zero-size array to reduction operation minimum which has no identity'')
     | x # ys \<Rightarrow> Inr (fold fmin ys x))"

definition np_max :: "pyfloat list \<Rightarrow> exn + pyfloat" where
  "np_max xs = (case xs of
       [] \<Rightarrow> Inl (Exception ''zero-size array to reduction operation maximum which has no identity'')
     | x # ys \<Rightarrow> Inr (fold fmax ys x))"

text \<open>\<open>mean()\<close> and \<open>std()\<close> of an empty array are NaN (numpy warns, it does not raise).\<close>

definition np_mean :: "pyfloat list \<Rightarrow> pyfloat" where
  "np_mean xs = (if xs = [] then NaN else fdivn (fold fadd xs (Fin 0)) (length xs))"

definition np_std :: "pyfloat list \<Rightarrow> pyfloat" where
  "np_std xs = fsqrt (np_mean (map (fsqdiff (np_mean xs)) xs))"

section \<open>Statements that may raise\<close>

text \<open>
  A statement runs on a state and gives the exception it raised, if any, and the state it left
  behind. \<open>seq\<close> stops at the first exception; \<open>try_except\<close> runs the handler, on the state the
  body left, when the body raises.
\<close>

type_synonym 's stmt = "'s \<Rightarrow> exn option \<times> 's"

definition skip :: "'s stmt" where
  "skip s = (None, s)"

definition exec :: "('s \<Rightarrow> 's) \<Rightarrow> 's stmt" where
  "exec f s = (None, f s)"

definition raise :: "exn \<Rightarrow> 's stmt" where
  "raise e s = (Some e, s)"

definition seq :: "'s stmt \<Rightarrow> 's stmt \<Rightarrow> 's stmt" where
  "seq a b s = (case a s of (Some e, s') \<Rightarrow> (Some e, s') | (None, s') \<Rightarrow> b s')"

fun block :: "'s stmt list \<Rightarrow> 's stmt" where
  "block [] = skip"
| "block (c # cs) = seq c (block cs)"

definition try_except :: "'s stmt \<Rightarrow> (exn \<Rightarrow> 's stmt) \<Rightarrow> 's stmt" where
  "try_except body handler s =
     (case body s of (Some e, s') \<Rightarrow> handler e s' | (None, s') \<Rightarrow> (None, s'))"

text \<open>\<open>for i in range(n): body(i)\<close>\<close>

definition for_range :: "nat \<Rightarrow> (nat \<Rightarrow> 's stmt) \<Rightarrow> 's stmt" where
  "for_range n body = block (map body [0..<n])"

section \<open>Axes, figure, log and file system\<close>

text \<open>
  An axes object is the list of the drawing calls made on it, in order. Only the arguments
  that carry content are kept; styling arguments (font, alpha, line width, the coordinates
  of value labels) are dropped. \<open>Placeholder s\<close> is the call
  \<open>ax.text(0.5, 0.5, s, ha='center', va='center', transform=ax.transAxes)\<close>.
  The drawing calls are taken to return, but for \<open>ax.table\<close> and the lookup of a table
  cell, whose failures are modelled below (\<open>ax.hist\<close> on data without a finite range, which
  raises, is outside the model).
\<close>

datatype ticks = Names "string list" | Positions "nat list"

datatype axcall =
    SetTitle string
  | Placeholder fstr
  | TextBox fstr
  | BarLabel fstr
  | BarH ticks "pyfloat list" "string list"
  | Bar "string list" "pyfloat list" "string list"
  | BarSpan nat int int string string
  | Hist "pyfloat list" nat
  | RandomHist nat
  | Table "fstr list list" "string list"
  | CellStyle nat nat string bool
  | Plot string
  | SetYTickLabels "string list"
  | Setting string
  | OnTwin axcall

type_synonym slot = "(nat \<times> nat) \<times> (nat \<times> nat)"

record axes =
  slot :: slot
  cartopy :: bool
  calls :: "axcall list"

record figure =
  figsize :: "real \<times> real"
  gridspec :: "nat \<times> nat"
  suptitle :: "string option"

datatype fs_event =
    Mkdir path
  | SaveFig path nat figure "(string \<times> axes) list"

record world =
  logged :: "(level \<times> fstr) list"
  fs_trace :: "fs_event list"

text \<open>The outcome of the two file-system operations is given by the environment.\<close>

record env =
  mkdir_result :: "path \<Rightarrow> exn option"
  savefig_result :: "path \<Rightarrow> exn option"

subsection \<open>The plotter object\<close>

text \<open>
  The grid handle is an external xarray dataset: node and element counts, the depth array,
  and the results of xarray's own \<open>depth.min()\<close> and \<open>depth.max()\<close>. The two sub-plotters
  \<open>GridPlotter\<close> and \<open>DataPlotter\<close> are external too: each of their methods draws into the
  axes it is given and may raise. \<open>DataPlotter\<close> may lack \<open>plot_atmospheric_spatial\<close>
  (the module asks with \<open>hasattr\<close>).
\<close>

record grid =
  n_nodes :: nat
  n_elements :: nat
  depth :: "pyfloat list"
  depth_min :: "exn + pyfloat"
  depth_max :: "exn + pyfloat"

record grid_plotter =
  plot_bathymetry :: "kwargs \<Rightarrow> axes stmt"
  plot_grid_quality :: "kwargs \<Rightarrow> axes stmt"
  plot_boundaries :: "kwargs \<Rightarrow> axes stmt"
  plot_grid :: "kwargs \<Rightarrow> axes stmt"

record data_plotter =
  plot_atmospheric_spatial :: "(kwargs \<Rightarrow> axes stmt) option"

record plot_config =
  dpi :: nat

record self =
  grid :: "grid option"
  plot_config :: plot_config
  grid_plotter :: grid_plotter
  data_plotter :: data_plotter

subsection \<open>Primitive statements of a panel\<close>

text \<open>A panel method works on its axes and on the world (for the log).\<close>

type_synonym pstate = "axes \<times> world"

definition call :: "axcall \<Rightarrow> pstate stmt" where
  "call c = exec (\<lambda>(a, w). (a\<lparr>calls := calls a @ [c]\<rparr>, w))"

definition log_warning :: "fstr \<Rightarrow> pstate stmt" where
  "log_warning m = exec (\<lambda>(a, w). (a, w\<lparr>logged := logged w @ [(WARNING, m)]\<rparr>))"

definition delegate :: "axes stmt \<Rightarrow> pstate stmt" where
  "delegate d = (\<lambda>(a, w). case d a of (r, a') \<Rightarrow> (r, (a', w)))"

text \<open>
  \<open>ax.table(cellText=..., colLabels=...)\<close> raises when the rows differ in length or the column
  labels do not fit; the table then has one more row when it has a header. \<open>table[(i, j)]\<close>
  raises KeyError outside the table.
\<close>

definition ax_table :: "fstr list list \<Rightarrow> string list \<Rightarrow> pstate stmt" where
  "ax_table cellText colLabels =
     (case cellText of
        [] \<Rightarrow> raise (Exception ''list index out of range'')
      | r # rs \<Rightarrow>
          if (\<exists>row \<in> set rs. length row \<noteq> length r)
          then raise (Exception ''Each row in cellText must have the same number of columns'')
          else if colLabels \<noteq> [] \<and> length colLabels \<noteq> length r
          then raise (Exception ''colLabels must be of the same length as the columns'')
          else call (Table cellText colLabels))"

definition table_rows :: "fstr list list \<Rightarrow> string list \<Rightarrow> nat" where
  "table_rows cellText colLabels = length cellText + (if colLabels = [] then 0 else 1)"

definition table_cols :: "fstr list list \<Rightarrow> nat" where
  "table_cols cellText = (case cellText of [] \<Rightarrow> 0 | r # rs \<Rightarrow> length r)"

definition style_cell :: "nat \<times> nat \<Rightarrow> nat \<Rightarrow> nat \<Rightarrow> string \<Rightarrow> bool \<Rightarrow> pstate stmt" where
  "style_cell dims i j facecolor bold =
     (if i < fst dims \<and> j < snd dims then call (CellStyle i j facecolor bold)
      else raise (Exception ''KeyError''))"

section \<open>The panel methods\<close>

text \<open>
  The methods of \<open>OverviewPlotter\<close>, under their names without the leading underscore.
  \<open>kwargs\<close> is handed on to the sub-plotters, after the keywords the module adds itself.
\<close>

definition get_grid_info :: "self \<Rightarrow> world \<Rightarrow> fstr \<times> world" where
  "get_grid_info self w =
     (case grid self of
        Some g \<Rightarrow>
          (case depth_min g of
             Inl e \<Rightarrow> (Lit ''Grid info unavailable'',
                       w\<lparr>logged := logged w @ [(WARNING, Cat [Lit ''Could not get grid info: '', OfExn e])]\<rparr>)
           | Inr lo \<Rightarrow>
               (case depth_max g of
                  Inl e \<Rightarrow> (Lit ''Grid info unavailable'',
                            w\<lparr>logged := logged w @ [(WARNING, Cat [Lit ''Could not get grid info: '', OfExn e])]\<rparr>)
                | Inr hi \<Rightarrow>
                    (Lines [Cat [Lit ''Nodes: '', Thousands (n_nodes g)],
                            Cat [Lit ''Elements: '', Thousands (n_elements g)],
                            Cat [Lit ''Depth: '', Fixed 1 lo, Lit '' to '', Fixed 1 hi, Lit '' m'']], w)))
      | None \<Rightarrow> (Lit ''Grid info unavailable'', w))"

definition plot_main_grid_panel :: "self \<Rightarrow> kwargs \<Rightarrow> pstate stmt" where
  "plot_main_grid_panel self kwargs =
     try_except
       (block [
          delegate (plot_bathymetry (grid_plotter self) kwargs),
          call (SetTitle ''Grid and Bathymetry''),
          (if grid self \<noteq> None
           then (\<lambda>(a, w). case get_grid_info self w of (grid_info, w') \<Rightarrow> call (TextBox grid_info) (a, w'))
           else skip)])
       (\<lambda>e. block [
          log_warning (Cat [Lit ''Could not plot main grid panel: '', OfExn e]),
          call (Placeholder (Lit ''Grid visualization unavailable''))])"

definition plot_boundary_panel :: "self \<Rightarrow> kwargs \<Rightarrow> pstate stmt" where
  "plot_boundary_panel self kwargs =
     try_except
       (block [
          delegate (plot_boundaries (grid_plotter self) ((''show_colorbar'', KBool False) # kwargs)),
          call (SetTitle ''Boundary Conditions'')])
       (\<lambda>e. block [
          log_warning (Cat [Lit ''Could not plot boundary panel: '', OfExn e]),
          call (Placeholder (Lit ''Boundary data unavailable''))])"

text \<open>The body of \<open>_add_data_source_markers\<close> is \<open>pass\<close> inside a \<open>try\<close>.\<close>

definition add_data_source_markers :: "pstate stmt" where
  "add_data_source_markers = try_except skip
     (\<lambda>e. log_warning (Cat [Lit ''Could not add data source markers: '', OfExn e]))"

definition plot_data_locations_panel :: "self \<Rightarrow> kwargs \<Rightarrow> pstate stmt" where
  "plot_data_locations_panel self kwargs =
     try_except
       (block [
          (if grid self \<noteq> None
           then delegate (plot_grid (grid_plotter self)
                  ((''show_elements'', KBool False) # (''show_colorbar'', KBool False) # kwargs))
           else skip),
          add_data_source_markers,
          call (SetTitle ''Data Locations'')])
       (\<lambda>e. block [
          log_warning (Cat [Lit ''Could not plot data locations panel: '', OfExn e]),
          call (Placeholder (Lit ''Data locations unavailable''))])"

text \<open>The four stub providers return a literal dictionary (their \<open>try\<close> cannot fail).\<close>

definition calculate_quality_metrics :: "(string \<times> pyfloat) list" where
  "calculate_quality_metrics =
     [(''min_aspect_ratio'', Fin 0.85), (''avg_aspect_ratio'', Fin 0.95),
      (''skewness_score'', Fin 0.92), (''orthogonality_score'', Fin 0.88)]"

definition plot_quality_metrics_chart :: "(string \<times> pyfloat) list \<Rightarrow> pstate stmt" where
  "plot_quality_metrics_chart metrics =
     (if metrics = [] then call (Placeholder (Lit ''No quality metrics available''))
      else
        (let names = dict_keys metrics; vals = dict_values metrics in
         block [
           call (BarH (Names names) vals
                  (map (\<lambda>v. if fgt v 0.8 then ''green'' else if fgt v 0.6 then ''orange'' else ''red'') vals)),
           call (Setting ''set_xlim(0, 1)''),
           call (Setting ''set_xlabel(Quality Score)''),
           block (map (\<lambda>v. call (BarLabel (Fixed 2 v))) vals)]))"

definition plot_quality_metrics_panel :: "self \<Rightarrow> kwargs \<Rightarrow> pstate stmt" where
  "plot_quality_metrics_panel self kwargs =
     block [
       try_except
         (if grid self \<noteq> None
          then plot_quality_metrics_chart calculate_quality_metrics
          else call (Placeholder (Lit ''Grid quality metrics unavailable'')))
         (\<lambda>e. block [
            log_warning (Cat [Lit ''Could not plot quality metrics: '', OfExn e]),
            call (Placeholder (Lit ''Quality metrics unavailable''))]),
       call (SetTitle ''Grid Quality'')]"

definition run_validation_checks :: "(string \<times> string) list" where
  "run_validation_checks =
     [(''Grid connectivity'', ''PASS''), (''Boundary conditions'', ''PASS''),
      (''Time stepping'', ''WARNING''), (''Data coverage'', ''PASS''),
      (''File integrity'', ''PASS'')]"

definition plot_validation_results :: "(string \<times> string) list \<Rightarrow> pstate stmt" where
  "plot_validation_results results =
     (if results = [] then call (Placeholder (Lit ''No validation results''))
      else
        (let y_pos = [0..<length results];
             labels = dict_keys results;
             statuses = dict_values results;
             colors = [(''PASS'', ''green''), (''WARNING'', ''orange''), (''FAIL'', ''red'')];
             bar_colors = map (\<lambda>status. get colors status ''gray'') statuses in
         block [
           call (BarH (Positions y_pos) (replicate (length results) (Fin 1)) bar_colors),
           call (Setting ''set_yticks(y_pos)''),
           call (SetYTickLabels labels),
           call (Setting ''set_xlim(0, 1)''),
           call (Setting ''set_xticks([])''),
           block (map (\<lambda>status. call (BarLabel (Lit status))) statuses)]))"

definition plot_validation_panel :: "self \<Rightarrow> kwargs \<Rightarrow> pstate stmt" where
  "plot_validation_panel self kwargs =
     block [
       try_except
         (plot_validation_results run_validation_checks)
         (\<lambda>e. block [
            log_warning (Cat [Lit ''Could not plot validation panel: '', OfExn e]),
            call (Placeholder (Lit ''Validation unavailable''))]),
       call (SetTitle ''Model Validation'')]"

definition get_data_summary :: "(string \<times> int) list" where
  "get_data_summary =
     [(''atmospheric_files'', 2), (''boundary_files'', 3),
      (''tidal_constituents'', 8), (''time_coverage_days'', 30)]"

definition plot_data_summary_chart :: "(string \<times> int) list \<Rightarrow> pstate stmt" where
  "plot_data_summary_chart summary =
     (if summary = [] then call (Placeholder (Lit ''No data summary available''))
      else
        block [
          call (TextBox (Lines (map (\<lambda>(k, v). Cat [TitleCase k, Lit '': '', OfInt v]) summary))),
          call (Setting ''set_xlim(0, 1)''),
          call (Setting ''set_ylim(0, 1)''),
          call (Setting ''axis(off)'')])"

definition plot_data_summary_panel :: "self \<Rightarrow> kwargs \<Rightarrow> pstate stmt" where
  "plot_data_summary_panel self kwargs =
     block [
       try_except
         (plot_data_summary_chart get_data_summary)
         (\<lambda>e. block [
            log_warning (Cat [Lit ''Could not plot data summary: '', OfExn e]),
            call (Placeholder (Lit ''Data summary unavailable''))]),
       call (SetTitle ''Data Summary'')]"

text \<open>The wind speeds are random numbers; the line is kept by its label.\<close>

definition plot_forcing_timeseries_overview :: "pstate stmt" where
  "plot_forcing_timeseries_overview =
     try_except
       (block [
          call (Plot ''Wind Speed''),
          call (Setting ''set_ylabel(Wind Speed (m/s))''),
          call (Setting ''set_xlabel(Time)''),
          call (Setting ''legend()''),
          call (Setting ''grid(True)''),
          call (Setting ''tick_params(axis=x, rotation=45)'')])
       (\<lambda>e. block [
          log_warning (Cat [Lit ''Could not plot forcing timeseries: '', OfExn e]),
          call (Placeholder (Lit ''Time series data unavailable''))])"

definition plot_timeseries_overview_panel :: "self \<Rightarrow> kwargs \<Rightarrow> pstate stmt" where
  "plot_timeseries_overview_panel self kwargs =
     block [
       try_except
         plot_forcing_timeseries_overview
         (\<lambda>e. block [
            log_warning (Cat [Lit ''Could not plot timeseries overview: '', OfExn e]),
            call (Placeholder (Lit ''Time series unavailable''))]),
       call (SetTitle ''Forcing Overview'')]"

definition get_model_info :: "(string \<times> string) list" where
  "get_model_info =
     [(''SCHISM Version'', ''5.11.0''), (''Grid Type'', ''Unstructured''),
      (''Vertical Layers'', ''10''), (''Physics'', ''Hydrostatic''),
      (''Modules'', ''WWM, ICE, SED'')]"

definition plot_model_info_table :: "(string \<times> string) list \<Rightarrow> pstate stmt" where
  "plot_model_info_table info =
     (if info = []
      then block [call (Placeholder (Lit ''No model info available'')), call (Setting ''axis(off)'')]
      else
        (let table_data = map (\<lambda>(k, v). [Lit k, Lit v]) info;
             colLabels = [''Parameter'', ''Value''];
             dims = (table_rows table_data colLabels, table_cols table_data) in
         block [
           ax_table table_data colLabels,
           call (Setting ''auto_set_font_size(False)''),
           call (Setting ''set_fontsize(10)''),
           call (Setting ''scale(1, 2)''),
           for_range (length table_data + 1) (\<lambda>i.
             for_range 2 (\<lambda>j.
               if i = 0 then style_cell dims i j ''#40466e'' True
               else style_cell dims i j (if i mod 2 = 0 then ''#f1f1f2'' else ''white'') False)),
           call (Setting ''axis(off)'')]))"

definition plot_model_info_panel :: "self \<Rightarrow> kwargs \<Rightarrow> pstate stmt" where
  "plot_model_info_panel self kwargs =
     block [
       try_except
         (plot_model_info_table get_model_info)
         (\<lambda>e. block [
            log_warning (Cat [Lit ''Could not plot model info: '', OfExn e]),
            call (Placeholder (Lit ''Model info unavailable''))]),
       call (SetTitle ''Model Configuration'')]"

subsection \<open>Grid analysis panels\<close>

definition plot_depth_histogram :: "self \<Rightarrow> kwargs \<Rightarrow> pstate stmt" where
  "plot_depth_histogram self kwargs =
     try_except
       (case grid self of
          Some g \<Rightarrow>
            (let depths = filter (\<lambda>d. \<not> isnan d) (depth g) in
             block [
               call (Hist depths 50),
               call (Setting ''set_xlabel(Depth (m))''),
               call (Setting ''set_ylabel(Frequency)''),
               call (SetTitle ''Depth Distribution''),
               call (Setting ''grid(True)'')])
        | None \<Rightarrow> call (Placeholder (Lit ''Grid data unavailable'')))
       (\<lambda>e. block [
          log_warning (Cat [Lit ''Could not plot depth histogram: '', OfExn e]),
          call (Placeholder (Lit ''Depth histogram unavailable''))])"

text \<open>The element sizes are 1000 random numbers; the histogram is kept by its bin count.\<close>

definition plot_element_size_histogram :: "self \<Rightarrow> kwargs \<Rightarrow> pstate stmt" where
  "plot_element_size_histogram self kwargs =
     try_except
       (block [
          call (RandomHist 50),
          call (Setting ''set_xlabel(Element Size (m2))''),
          call (Setting ''set_ylabel(Frequency)''),
          call (SetTitle ''Element Size Distribution''),
          call (Setting ''set_xscale(log)''),
          call (Setting ''grid(True)'')])
       (\<lambda>e. block [
          log_warning (Cat [Lit ''Could not plot element size histogram: '', OfExn e]),
          call (Placeholder (Lit ''Element size histogram unavailable''))])"

text \<open>
  \<open>_calculate_grid_statistics\<close> returns a dictionary and may log. The dictionary literal is
  evaluated entry by entry, so \<open>depths.min()\<close> is the first call that can raise; the handler
  logs and returns the empty dictionary.
\<close>

definition calculate_grid_statistics :: "self \<Rightarrow> world \<Rightarrow> (string \<times> fstr) list \<times> world" where
  "calculate_grid_statistics self w =
     (case grid self of
        Some g \<Rightarrow>
          (let depths = filter (\<lambda>d. \<not> isnan d) (depth g) in
           case np_min depths of
             Inl e \<Rightarrow> ([], w\<lparr>logged := logged w @
                         [(WARNING, Cat [Lit ''Could not calculate grid statistics: '', OfExn e])]\<rparr>)
           | Inr lo \<Rightarrow>
               (case np_max depths of
                  Inl e \<Rightarrow> ([], w\<lparr>logged := logged w @
                              [(WARNING, Cat [Lit ''Could not calculate grid statistics: '', OfExn e])]\<rparr>)
                | Inr hi \<Rightarrow>
                    ([(''Total Nodes'', Thousands (n_nodes g)),
                      (''Total Elements'', Thousands (n_elements g)),
                      (''Min Depth'', Cat [Fixed 2 lo, Lit '' m'']),
                      (''Max Depth'', Cat [Fixed 2 hi, Lit '' m'']),
                      (''Mean Depth'', Cat [Fixed 2 (np_mean depths), Lit '' m'']),
                      (''Depth Std'', Cat [Fixed 2 (np_std depths), Lit '' m''])], w)))
      | None \<Rightarrow> ([], w))"

text \<open>
  The two nested loops of \<open>_create_statistics_table\<close> that build \<open>table_data\<close>:
  the inner one extends \<open>row_data\<close> by a key and a value, or by two empty strings.
\<close>

definition statistics_row :: "(string \<times> fstr) list \<Rightarrow> nat \<Rightarrow> nat \<Rightarrow> fstr list" where
  "statistics_row items n_cols row =
     fold (\<lambda>col row_data.
             (let idx = row * n_cols + col in
              if idx < length items
              then (case items ! idx of (key, val) \<Rightarrow> row_data @ [Lit key, val])
              else row_data @ [Lit '''', Lit '''']))
          [0..<n_cols] []"

definition statistics_table_data :: "(string \<times> fstr) list \<Rightarrow> nat \<Rightarrow> nat \<Rightarrow> fstr list list" where
  "statistics_table_data items n_cols n_rows =
     fold (\<lambda>row table_data. table_data @ [statistics_row items n_cols row]) [0..<n_rows] []"

definition create_statistics_table :: "(string \<times> fstr) list \<Rightarrow> string \<Rightarrow> pstate stmt" where
  "create_statistics_table stats title =
     (if stats = []
      then block [
             call (Placeholder (Cat [Lit ''No '', Lower title, Lit '' available''])),
             call (Setting ''axis(off)'')]
      else
        (let items = stats;
             n_cols = 3;
             n_rows = (length items + n_cols - 1) div n_cols;
             table_data = statistics_table_data items n_cols n_rows;
             dims = (table_rows table_data [], table_cols table_data) in
         block [
           ax_table table_data [],
           call (Setting ''auto_set_font_size(False)''),
           call (Setting ''set_fontsize(9)''),
           call (Setting ''scale(1, 1.5)''),
           for_range n_rows (\<lambda>i.
             for_range (n_cols * 2) (\<lambda>j.
               if j mod 2 = 0 then style_cell dims i j ''#f8f9fa'' True
               else style_cell dims i j ''white'' False)),
           call (SetTitle title),
           call (Setting ''axis(off)'')]))"

definition plot_grid_statistics_table :: "self \<Rightarrow> kwargs \<Rightarrow> pstate stmt" where
  "plot_grid_statistics_table self kwargs =
     try_except
       (if grid self \<noteq> None
        then (\<lambda>(a, w). case calculate_grid_statistics self w of
                (stats, w') \<Rightarrow> create_statistics_table stats ''Grid Statistics'' (a, w'))
        else call (Placeholder (Lit ''Grid statistics unavailable'')))
       (\<lambda>e. block [
          log_warning (Cat [Lit ''Could not plot grid statistics: '', OfExn e]),
          call (Placeholder (Lit ''Grid statistics unavailable''))])"

subsection \<open>Data analysis panels\<close>

definition plot_atmospheric_overview :: "self \<Rightarrow> kwargs \<Rightarrow> pstate stmt" where
  "plot_atmospheric_overview self kwargs =
     block [
       try_except
         (case plot_atmospheric_spatial (data_plotter self) of
            Some f \<Rightarrow> delegate (f ((''show_colorbar'', KBool False) # kwargs))
          | None \<Rightarrow> call (Placeholder (Lit ''Atmospheric data unavailable'')))
         (\<lambda>e. block [
            log_warning (Cat [Lit ''Could not plot atmospheric overview: '', OfExn e]),
            call (Placeholder (Lit ''Atmospheric data unavailable''))]),
       call (SetTitle ''Atmospheric Forcing'')]"

definition plot_boundary_data_locations :: "self \<Rightarrow> kwargs \<Rightarrow> pstate stmt" where
  "plot_boundary_data_locations self kwargs =
     block [
       try_except
         (block [
            (if grid self \<noteq> None
             then delegate (plot_grid (grid_plotter self)
                    ((''show_elements'', KBool False) # (''show_colorbar'', KBool False)
                     # (''alpha'', KReal 0.3) # kwargs))
             else skip),
            delegate (plot_boundaries (grid_plotter self) ((''show_colorbar'', KBool False) # kwargs))])
         (\<lambda>e. block [
            log_warning (Cat [Lit ''Could not plot boundary data locations: '', OfExn e]),
            call (Placeholder (Lit ''Boundary locations unavailable''))]),
       call (SetTitle ''Boundary Data Locations'')]"

text \<open>
  Bar \<open>i\<close> of the coverage timeline starts \<open>2 i\<close> days after the origin and ends \<open>30 - i\<close>
  days after it.
\<close>

definition plot_data_coverage_timeline :: "self \<Rightarrow> kwargs \<Rightarrow> pstate stmt" where
  "plot_data_coverage_timeline self kwargs =
     block [
       try_except
         (let data_types = [''Atmospheric'', ''Boundary T/S'', ''Boundary UV'', ''Tidal''];
              colors = [''blue'', ''green'', ''red'', ''orange''] in
          block [
            block (map (\<lambda>(i, (data_type, color)).
                      (let coverage_start = int (i * 2); coverage_end = 30 - int i in
                       call (BarSpan i (coverage_end - coverage_start) coverage_start color data_type)))
                   (enumerate 0 (zip data_types colors))),
            call (Setting ''set_yticks(range(len(data_types)))''),
            call (SetYTickLabels data_types),
            call (Setting ''set_xlabel(Days from Model Start)''),
            call (Setting ''set_xlim(0, 30)''),
            call (Setting ''grid(True)'')])
         (\<lambda>e. block [
            log_warning (Cat [Lit ''Could not plot data coverage timeline: '', OfExn e]),
            call (Placeholder (Lit ''Data coverage unavailable''))]),
       call (SetTitle ''Data Coverage Timeline'')]"

definition plot_atmospheric_timeseries_overview :: "self \<Rightarrow> kwargs \<Rightarrow> pstate stmt" where
  "plot_atmospheric_timeseries_overview self kwargs =
     block [
       try_except
         (block [
            call (Plot ''Wind Speed (m/s)''),
            call (OnTwin (Plot ''Pressure (hPa)'')),
            call (Setting ''set_xlabel(Time)''),
            call (Setting ''set_ylabel(Wind Speed (m/s))''),
            call (OnTwin (Setting ''set_ylabel(Pressure (hPa))'')),
            call (Setting ''legend(lines, labels)''),
            call (Setting ''grid(True)''),
            call (Setting ''tick_params(axis=x, rotation=45)'')])
         (\<lambda>e. block [
            log_warning (Cat [Lit ''Could not plot atmospheric timeseries: '', OfExn e]),
            call (Placeholder (Lit ''Atmospheric time series unavailable''))]),
       call (SetTitle ''Atmospheric Forcing Time Series'')]"

definition plot_boundary_timeseries_overview :: "self \<Rightarrow> kwargs \<Rightarrow> pstate stmt" where
  "plot_boundary_timeseries_overview self kwargs =
     block [
       try_except
         (block [
            call (Plot ''Temperature (C)''),
            call (OnTwin (Plot ''Salinity (psu)'')),
            call (Setting ''set_xlabel(Time)''),
            call (Setting ''set_ylabel(Temperature (C))''),
            call (OnTwin (Setting ''set_ylabel(Salinity (psu))'')),
            call (Setting ''grid(True)''),
            call (Setting ''tick_params(axis=x, rotation=45)''),
            call (Setting ''legend()''),
            call (OnTwin (Setting ''legend()''))])
         (\<lambda>e. block [
            log_warning (Cat [Lit ''Could not plot boundary timeseries: '', OfExn e]),
            call (Placeholder (Lit ''Boundary time series unavailable''))]),
       call (SetTitle ''Boundary Conditions'')]"

text \<open>
  The body of the \<open>try\<close> of \<open>_plot_data_quality_metrics\<close>, as a function of its local
  dictionary \<open>metrics\<close>, and the method itself with the dictionary it hard-codes.
\<close>

definition data_quality_chart :: "(string \<times> pyfloat) list \<Rightarrow> pstate stmt" where
  "data_quality_chart metrics =
     (let categories = dict_keys metrics;
          vals = dict_values metrics;
          colors = map (\<lambda>v. if fge v 0.9 then ''green'' else if fge v 0.8 then ''orange'' else ''red'') vals in
      block [
        call (Bar categories vals colors),
        call (Setting ''set_ylim(0, 1)''),
        call (Setting ''set_ylabel(Quality Score)''),
        call (SetTitle ''Data Quality Metrics''),
        call (Setting ''tick_params(axis=x, rotation=45)''),
        call (Setting ''grid(True, axis=y)''),
        block (map (\<lambda>v. call (BarLabel (Fixed 2 v))) vals)])"

definition plot_data_quality_metrics :: "self \<Rightarrow> kwargs \<Rightarrow> pstate stmt" where
  "plot_data_quality_metrics self kwargs =
     block [
       try_except
         (data_quality_chart
            [(''Completeness'', Fin 0.95), (''Consistency'', Fin 0.88),
             (''Temporal Coverage'', Fin 0.92), (''Spatial Coverage'', Fin 0.85),
             (''Value Ranges'', Fin 0.90)])
         (\<lambda>e. block [
            log_warning (Cat [Lit ''Could not plot data quality metrics: '', OfExn e]),
            call (Placeholder (Lit ''Data quality metrics unavailable''))]),
       call (SetTitle ''Data Quality'')]"

definition plot_data_statistics_table :: "self \<Rightarrow> kwargs \<Rightarrow> pstate stmt" where
  "plot_data_statistics_table self kwargs =
     try_except
       (create_statistics_table
          [(''Atmospheric Files'', Lit ''3''), (''Boundary Files'', Lit ''5''),
           (''Time Coverage'', Lit ''30 days''), (''Temporal Resolution'', Lit ''6 hours''),
           (''Tidal Constituents'', Lit ''8''), (''Grid Points'', Lit ''2,500'')]
          ''Data Statistics'')
       (\<lambda>e. block [
          log_warning (Cat [Lit ''Could not plot data statistics: '', OfExn e]),
          call (Placeholder (Lit ''Data statistics unavailable''))])"

section \<open>Composition\<close>

text \<open>
  The state of a composing call: the figure, the dictionary \<open>axes\<close> and the world. The axes
  objects are held by the dictionary (the figure's own list of them is the same objects).
\<close>

record state =
  fig :: figure
  axes_map :: "(string \<times> axes) list"
  world :: world

text \<open>\<open>fig = plt.figure(figsize=figsize); gs = GridSpec(r, c, figure=fig); axes = {}\<close>\<close>

definition new_figure :: "real \<times> real \<Rightarrow> nat \<times> nat \<Rightarrow> world \<Rightarrow> state" where
  "new_figure figsz gs w =
     \<lparr>fig = \<lparr>figsize = figsz, gridspec = gs, suptitle = None\<rparr>, axes_map = [], world = w\<rparr>"

text \<open>\<open>axes[name] = fig.add_subplot(gs[...], projection=...)\<close>\<close>

definition new_axes :: "slot \<Rightarrow> bool \<Rightarrow> axes" where
  "new_axes sl proj = \<lparr>slot = sl, cartopy = proj, calls = []\<rparr>"

definition add_subplot :: "string \<Rightarrow> slot \<Rightarrow> bool \<Rightarrow> state stmt" where
  "add_subplot name sl proj =
     exec (\<lambda>s. s\<lparr>axes_map := setitem name (new_axes sl proj) (axes_map s)\<rparr>)"

text \<open>Running a panel statement on \<open>axes[name]\<close>.\<close>

definition on_axes :: "string \<Rightarrow> pstate stmt \<Rightarrow> state stmt" where
  "on_axes name p s =
     (case map_of (axes_map s) name of
        None \<Rightarrow> (Some (Exception ''KeyError''), s)
      | Some a \<Rightarrow>
          (case p (a, world s) of
             (r, (a', w')) \<Rightarrow> (r, s\<lparr>axes_map := setitem name a' (axes_map s), world := w'\<rparr>)))"

definition fig_suptitle :: "string \<Rightarrow> state stmt" where
  "fig_suptitle t = exec (\<lambda>s. s\<lparr>fig := (fig s)\<lparr>suptitle := Some t\<rparr>\<rparr>)"

subsection \<open>Saving\<close>

definition path_mkdir :: "env \<Rightarrow> path \<Rightarrow> state stmt" where
  "path_mkdir env p s =
     (mkdir_result env p, s\<lparr>world := (world s)\<lparr>fs_trace := fs_trace (world s) @ [Mkdir p]\<rparr>\<rparr>)"

definition savefig :: "env \<Rightarrow> path \<Rightarrow> nat \<Rightarrow> state stmt" where
  "savefig env p d s =
     (savefig_result env p,
      s\<lparr>world := (world s)\<lparr>fs_trace := fs_trace (world s) @ [SaveFig p d (fig s) (axes_map s)]\<rparr>\<rparr>)"

definition log_state :: "level \<Rightarrow> fstr \<Rightarrow> state stmt" where
  "log_state l m = exec (\<lambda>s. s\<lparr>world := (world s)\<lparr>logged := logged (world s) @ [(l, m)]\<rparr>\<rparr>)"

definition save_plot :: "env \<Rightarrow> self \<Rightarrow> path_arg \<Rightarrow> state stmt" where
  "save_plot env self save_path =
     (let save_path' = to_path save_path in
      try_except
        (block [
           path_mkdir env (Parent save_path'),
           savefig env save_path' (dpi (plot_config self)),
           log_state INFO (Cat [Lit ''Overview plot saved to '', OfPath save_path'])])
        (\<lambda>e. log_state ERROR (Cat [Lit ''Could not save plot to '', OfPath save_path', Lit '': '', OfExn e])))"

text \<open>\<open>if save_path: self._save_plot(fig, save_path)\<close>\<close>

definition save_if_requested :: "env \<Rightarrow> self \<Rightarrow> path_arg option \<Rightarrow> state stmt" where
  "save_if_requested env self save_path =
     (if truthy save_path then save_plot env self (the save_path) else skip)"

subsection \<open>The three entry points\<close>

text \<open>
  A composing call returns the pair \<open>(fig, axes)\<close> or raises; either way it leaves a world.

  The entry points are modelled from the point where the drawing surface exists and the
  panel methods can be called: \<open>plt.figure\<close> is taken to have returned (when it raises, for
  a size that is not positive, the call raises before any region is made), and \<open>kwargs\<close>
  is taken to hold no key \<open>ax\<close> (with one, a call \<open>self._plot_x(axes[..], **kwargs)\<close> raises
  TypeError while binding its arguments, outside every \<open>try\<close>). The theorems on the
  keys of the returned mapping are therefore stated for calls that return.
\<close>

type_synonym result = "(exn + figure \<times> (string \<times> axes) list) \<times> world"

definition return_fig_axes :: "exn option \<times> state \<Rightarrow> result" where
  "return_fig_axes r =
     (case r of
        (Some e, s) \<Rightarrow> (Inl e, world s)
      | (None, s) \<Rightarrow> (Inr (fig s, axes_map s), world s))"

definition plot_comprehensive_overview ::
  "env \<Rightarrow> self \<Rightarrow> real \<times> real \<Rightarrow> bool \<Rightarrow> bool \<Rightarrow> bool \<Rightarrow> path_arg option \<Rightarrow> kwargs \<Rightarrow> world \<Rightarrow> result" where
  "plot_comprehensive_overview env self figsz include_validation include_quality_metrics
       include_data_summary save_path kwargs w =
     return_fig_axes (block [
       add_subplot ''grid'' ((0, 2), (0, 2)) True,
       on_axes ''grid'' (plot_main_grid_panel self kwargs),
       add_subplot ''boundaries'' ((0, 2), (2, 3)) True,
       on_axes ''boundaries'' (plot_boundary_panel self kwargs),
       add_subplot ''data_locations'' ((0, 2), (3, 4)) True,
       on_axes ''data_locations'' (plot_data_locations_panel self kwargs),
       (if include_quality_metrics
        then block [add_subplot ''quality'' ((2, 3), (0, 1)) False,
                    on_axes ''quality'' (plot_quality_metrics_panel self kwargs)]
        else skip),
       (if include_validation
        then block [add_subplot ''validation'' ((2, 3), (1, 2)) False,
                    on_axes ''validation'' (plot_validation_panel self kwargs)]
        else skip),
       (if include_data_summary
        then block [add_subplot ''data_summary'' ((2, 3), (2, 3)) False,
                    on_axes ''data_summary'' (plot_data_summary_panel self kwargs)]
        else skip),
       add_subplot ''timeseries'' ((2, 3), (3, 4)) False,
       on_axes ''timeseries'' (plot_timeseries_overview_panel self kwargs),
       add_subplot ''info'' ((3, 4), (0, 4)) False,
       on_axes ''info'' (plot_model_info_panel self kwargs),
       fig_suptitle ''SCHISM Model Overview'',
       save_if_requested env self save_path]
      (new_figure figsz (4, 4) w))"

definition plot_grid_analysis_overview ::
  "env \<Rightarrow> self \<Rightarrow> real \<times> real \<Rightarrow> path_arg option \<Rightarrow> kwargs \<Rightarrow> world \<Rightarrow> result" where
  "plot_grid_analysis_overview env self figsz save_path kwargs w =
     return_fig_axes (block [
       add_subplot ''grid'' ((0, 1), (0, 2)) True,
       on_axes ''grid'' (delegate (plot_bathymetry (grid_plotter self) kwargs)),
       on_axes ''grid'' (call (SetTitle ''Grid and Bathymetry'')),
       add_subplot ''quality'' ((0, 1), (2, 3)) True,
       on_axes ''quality'' (delegate (plot_grid_quality (grid_plotter self) kwargs)),
       on_axes ''quality'' (call (SetTitle ''Element Quality'')),
       add_subplot ''boundaries'' ((1, 2), (0, 1)) True,
       on_axes ''boundaries'' (delegate (plot_boundaries (grid_plotter self) kwargs)),
       on_axes ''boundaries'' (call (SetTitle ''Boundaries'')),
       add_subplot ''depth_hist'' ((1, 2), (1, 2)) False,
       on_axes ''depth_hist'' (plot_depth_histogram self kwargs),
       add_subplot ''size_hist'' ((1, 2), (2, 3)) False,
       on_axes ''size_hist'' (plot_element_size_histogram self kwargs),
       add_subplot ''stats'' ((2, 3), (0, 3)) False,
       on_axes ''stats'' (plot_grid_statistics_table self kwargs),
       fig_suptitle ''SCHISM Grid Analysis Overview'',
       save_if_requested env self save_path]
      (new_figure figsz (3, 3) w))"

definition plot_data_analysis_overview ::
  "env \<Rightarrow> self \<Rightarrow> real \<times> real \<Rightarrow> path_arg option \<Rightarrow> kwargs \<Rightarrow> world \<Rightarrow> result" where
  "plot_data_analysis_overview env self figsz save_path kwargs w =
     return_fig_axes (block [
       add_subplot ''atmospheric'' ((0, 1), (0, 1)) True,
       on_axes ''atmospheric'' (plot_atmospheric_overview self kwargs),
       add_subplot ''boundary_locations'' ((0, 1), (1, 2)) True,
       on_axes ''boundary_locations'' (plot_boundary_data_locations self kwargs),
       add_subplot ''coverage'' ((0, 1), (2, 3)) False,
       on_axes ''coverage'' (plot_data_coverage_timeline self kwargs),
       add_subplot ''atm_timeseries'' ((1, 2), (0, 3)) False,
       on_axes ''atm_timeseries'' (plot_atmospheric_timeseries_overview self kwargs),
       add_subplot ''boundary_ts'' ((2, 3), (0, 1)) False,
       on_axes ''boundary_ts'' (plot_boundary_timeseries_overview self kwargs),
       add_subplot ''data_quality'' ((2, 3), (1, 2)) False,
       on_axes ''data_quality'' (plot_data_quality_metrics self kwargs),
       add_subplot ''data_stats'' ((2, 3), (2, 3)) False,
       on_axes ''data_stats'' (plot_data_statistics_table self kwargs),
       fig_suptitle ''SCHISM Data Analysis Overview'',
       save_if_requested env self save_path]
      (new_figure figsz (3, 3) w))"

text \<open>
  \<open>plot(**kwargs)\<close> hands every keyword on to \<open>plot_comprehensive_overview\<close>: the keywords
  \<open>figsize\<close>, \<open>include_validation\<close>, \<open>include_quality_metrics\<close>, \<open>include_data_summary\<close> and
  \<open>save_path\<close> bind the parameters of these names (absent ones take the defaults) and the
  others stay in \<open>kwargs\<close>. The parameters below are the ones so bound.
\<close>

definition plot ::
  "env \<Rightarrow> self \<Rightarrow> real \<times> real \<Rightarrow> bool \<Rightarrow> bool \<Rightarrow> bool \<Rightarrow> path_arg option \<Rightarrow> kwargs \<Rightarrow> world \<Rightarrow> result" where
  "plot env self figsz include_validation include_quality_metrics include_data_summary
       save_path kwargs w =
     plot_comprehensive_overview env self figsz include_validation include_quality_metrics
       include_data_summary save_path kwargs w"

section \<open>Reading what a call drew and returned\<close>

text \<open>What a panel statement leaves on an axes object, and what the calls on it hold.\<close>

definition drawn :: "pstate stmt \<Rightarrow> axes \<Rightarrow> world \<Rightarrow> axcall list" where
  "drawn p a w = calls (fst (snd (p (a, w))))"

fun bar_colors :: "axcall list \<Rightarrow> string list" where
  "bar_colors [] = []"
| "bar_colors (BarH t vs cs # xs) = cs @ bar_colors xs"
| "bar_colors (Bar t vs cs # xs) = cs @ bar_colors xs"
| "bar_colors (c # xs) = bar_colors xs"

fun placeholders :: "axcall list \<Rightarrow> fstr list" where
  "placeholders [] = []"
| "placeholders (Placeholder t # xs) = t # placeholders xs"
| "placeholders (c # xs) = placeholders xs"

fun tables :: "axcall list \<Rightarrow> fstr list list list" where
  "tables [] = []"
| "tables (Table cells labels # xs) = cells # tables xs"
| "tables (c # xs) = tables xs"

fun histograms :: "axcall list \<Rightarrow> (pyfloat list \<times> nat) list" where
  "histograms [] = []"
| "histograms (Hist xs bins # cs) = (xs, bins) # histograms cs"
| "histograms (c # cs) = histograms cs"

text \<open>The key set of the mapping a composing call returns; \<open>None\<close> when it raised.\<close>

definition returned_keys :: "result \<Rightarrow> string set option" where
  "returned_keys r = (case fst r of Inl e \<Rightarrow> None | Inr (fg, ax) \<Rightarrow> Some (set (dict_keys ax)))"

definition quiet_world :: world where
  "quiet_world = \<lparr>logged = [], fs_trace = []\<rparr>"

text \<open>The statement that makes the drawing calls \<open>cs\<close> in a row, and two properties of
  statements; all three are used in the proofs.\<close>

definition draw :: "axcall list \<Rightarrow> pstate stmt" where
  "draw cs = exec (\<lambda>(a, w). (a\<lparr>calls := calls a @ cs\<rparr>, w))"

definition never_raises :: "'s stmt \<Rightarrow> bool" where
  "never_raises p = (\<forall>s. fst (p s) = None)"

definition preserves :: "('s \<Rightarrow> 'b) \<Rightarrow> 's stmt \<Rightarrow> bool" where
  "preserves f p = (\<forall>s. f (snd (p s)) = f s)"

subsection \<open>Two plotter objects to run the module on\<close>

text \<open>
  A plotter with a grid of four nodes whose depths are 1, 2, 3 and NaN, with sub-plotters
  whose methods draw nothing and return; and a plotter without a grid, whose grid
  sub-plotter raises from every method and whose data sub-plotter has no
  \<open>plot_atmospheric_spatial\<close>.
\<close>

definition plotter_with_grid :: self where
  "plotter_with_grid =
     \<lparr>grid = Some \<lparr>n_nodes = 4, n_elements = 2, depth = [Fin 1, Fin 2, Fin 3, NaN],
                    depth_min = Inr (Fin 1), depth_max = Inr (Fin 3)\<rparr>,
      plot_config = \<lparr>dpi = 300\<rparr>,
      grid_plotter = \<lparr>plot_bathymetry = (\<lambda>kw. skip), plot_grid_quality = (\<lambda>kw. skip),
                      plot_boundaries = (\<lambda>kw. skip), plot_grid = (\<lambda>kw. skip)\<rparr>,
      data_plotter = \<lparr>plot_atmospheric_spatial = Some (\<lambda>kw. skip)\<rparr>\<rparr>"

definition plotter_without_grid :: self where
  "plotter_without_grid =
     \<lparr>grid = None,
      plot_config = \<lparr>dpi = 300\<rparr>,
      grid_plotter = \<lparr>plot_bathymetry = (\<lambda>kw. raise (Exception ''no grid'')),
                      plot_grid_quality = (\<lambda>kw. raise (Exception ''no grid'')),
                      plot_boundaries = (\<lambda>kw. raise (Exception ''no grid'')),
                      plot_grid = (\<lambda>kw. raise (Exception ''no grid''))\<rparr>,
      data_plotter = \<lparr>plot_atmospheric_spatial = None\<rparr>\<rparr>"

text \<open>A file system on which every operation succeeds, and one on which no directory can
  be made.\<close>

definition writable_fs :: env where
  "writable_fs = \<lparr>mkdir_result = (\<lambda>p. None), savefig_result = (\<lambda>p. None)\<rparr>"

definition readonly_fs :: env where
  "readonly_fs = \<lparr>mkdir_result = (\<lambda>p. Some (Exception ''Permission denied'')),
                   savefig_result = (\<lambda>p. Some (Exception ''Permission denied''))\<rparr>"

section \<open>Lemmas on statements, panels and regions\<close>

subsection \<open>Combinators\<close>

lemma seq_skip: "seq p skip = p"
  by (rule ext) (simp add: seq_def skip_def split: prod.splits option.splits)

lemma seq_assoc: "seq (seq a b) c = seq a (seq b c)"
  by (rule ext) (simp add: seq_def split: prod.splits option.splits)

lemma block_append: "block (xs @ ys) = seq (block xs) (block ys)"
proof (induction xs)
  case Nil
  show ?case by (rule ext) (simp add: seq_def skip_def)
next
  case (Cons x xs)
  then show ?case by (simp add: seq_assoc)
qed

lemma seq_never_raises: "fst (a s) = None \<Longrightarrow> seq a b s = b (snd (a s))"
  by (cases "a s") (simp add: seq_def)

lemma never_raises_skip: "never_raises skip"
  by (simp add: never_raises_def skip_def)

lemma never_raises_exec: "never_raises (exec f)"
  by (simp add: never_raises_def exec_def)

lemma never_raises_seq: "never_raises a \<Longrightarrow> never_raises b \<Longrightarrow> never_raises (seq a b)"
  by (simp add: never_raises_def seq_never_raises)

lemma never_raises_block: "list_all never_raises cs \<Longrightarrow> never_raises (block cs)"
  by (induction cs) (simp_all add: never_raises_skip never_raises_seq)

lemma never_raises_try: "(\<And>e. never_raises (handler e)) \<Longrightarrow> never_raises (try_except body handler)"
  by (simp add: never_raises_def try_except_def split: prod.splits option.splits)

lemma never_raises_call: "never_raises (call c)"
  by (simp add: call_def never_raises_exec)

lemma never_raises_log_warning: "never_raises (log_warning m)"
  by (simp add: log_warning_def never_raises_exec)

lemma never_raises_if: "never_raises a \<Longrightarrow> never_raises b \<Longrightarrow> never_raises (if c then a else b)"
  by simp

lemmas never_raises_intros =
  never_raises_skip never_raises_exec never_raises_seq never_raises_block never_raises_try
  never_raises_call never_raises_log_warning

lemma never_raises_handler:
  "never_raises (block [log_warning m, call c])"
  by (simp add: never_raises_intros)

lemma preserves_skip: "preserves f skip"
  by (simp add: preserves_def skip_def)

lemma preserves_raise: "preserves f (raise e)"
  by (simp add: preserves_def raise_def)

lemma preserves_exec: "(\<And>s. f (g s) = f s) \<Longrightarrow> preserves f (exec g)"
  by (simp add: preserves_def exec_def)

lemma preserves_seq: "preserves f a \<Longrightarrow> preserves f b \<Longrightarrow> preserves f (seq a b)"
  by (simp add: preserves_def seq_def split: prod.splits option.splits) (metis snd_conv)

lemma preserves_block: "list_all (preserves f) cs \<Longrightarrow> preserves f (block cs)"
  by (induction cs) (simp_all add: preserves_skip preserves_seq)

lemma preserves_try:
  "preserves f body \<Longrightarrow> (\<And>e. preserves f (handler e)) \<Longrightarrow> preserves f (try_except body handler)"
  by (simp add: preserves_def try_except_def split: prod.splits option.splits) (metis snd_conv)

lemma preserves_for_range: "(\<And>i. preserves f (body i)) \<Longrightarrow> preserves f (for_range n body)"
  by (simp add: for_range_def preserves_block list_all_iff)


subsection \<open>Panels never raise\<close>

lemma plot_main_grid_panel_total: "never_raises (plot_main_grid_panel self kwargs)"
  by (auto simp: plot_main_grid_panel_def intro!: never_raises_intros)

lemma plot_boundary_panel_total: "never_raises (plot_boundary_panel self kwargs)"
  by (auto simp: plot_boundary_panel_def intro!: never_raises_intros)

lemma plot_data_locations_panel_total: "never_raises (plot_data_locations_panel self kwargs)"
  by (auto simp: plot_data_locations_panel_def intro!: never_raises_intros)

lemma plot_quality_metrics_panel_total: "never_raises (plot_quality_metrics_panel self kwargs)"
  by (auto simp: plot_quality_metrics_panel_def intro!: never_raises_intros)

lemma plot_validation_panel_total: "never_raises (plot_validation_panel self kwargs)"
  by (auto simp: plot_validation_panel_def intro!: never_raises_intros)

lemma plot_data_summary_panel_total: "never_raises (plot_data_summary_panel self kwargs)"
  by (auto simp: plot_data_summary_panel_def intro!: never_raises_intros)

lemma plot_timeseries_overview_panel_total: "never_raises (plot_timeseries_overview_panel self kwargs)"
  by (auto simp: plot_timeseries_overview_panel_def intro!: never_raises_intros)

lemma plot_model_info_panel_total: "never_raises (plot_model_info_panel self kwargs)"
  by (auto simp: plot_model_info_panel_def intro!: never_raises_intros)

lemma plot_depth_histogram_total: "never_raises (plot_depth_histogram self kwargs)"
  by (auto simp: plot_depth_histogram_def intro!: never_raises_intros)

lemma plot_element_size_histogram_total: "never_raises (plot_element_size_histogram self kwargs)"
  by (auto simp: plot_element_size_histogram_def intro!: never_raises_intros)

lemma plot_grid_statistics_table_total: "never_raises (plot_grid_statistics_table self kwargs)"
  by (auto simp: plot_grid_statistics_table_def intro!: never_raises_intros)

lemma plot_atmospheric_overview_total: "never_raises (plot_atmospheric_overview self kwargs)"
  by (auto simp: plot_atmospheric_overview_def intro!: never_raises_intros)

lemma plot_boundary_data_locations_total: "never_raises (plot_boundary_data_locations self kwargs)"
  by (auto simp: plot_boundary_data_locations_def intro!: never_raises_intros)

lemma plot_data_coverage_timeline_total: "never_raises (plot_data_coverage_timeline self kwargs)"
  by (auto simp: plot_data_coverage_timeline_def intro!: never_raises_intros)

lemma plot_atmospheric_timeseries_overview_total:
  "never_raises (plot_atmospheric_timeseries_overview self kwargs)"
  by (auto simp: plot_atmospheric_timeseries_overview_def intro!: never_raises_intros)

lemma plot_boundary_timeseries_overview_total:
  "never_raises (plot_boundary_timeseries_overview self kwargs)"
  by (auto simp: plot_boundary_timeseries_overview_def intro!: never_raises_intros)

lemma plot_data_quality_metrics_total: "never_raises (plot_data_quality_metrics self kwargs)"
  by (auto simp: plot_data_quality_metrics_def intro!: never_raises_intros)

lemma plot_data_statistics_table_total: "never_raises (plot_data_statistics_table self kwargs)"
  by (auto simp: plot_data_statistics_table_def intro!: never_raises_intros)

lemmas panels_total =
  plot_main_grid_panel_total plot_boundary_panel_total plot_data_locations_panel_total
  plot_quality_metrics_panel_total plot_validation_panel_total plot_data_summary_panel_total
  plot_timeseries_overview_panel_total plot_model_info_panel_total plot_depth_histogram_total
  plot_element_size_histogram_total plot_grid_statistics_table_total
  plot_atmospheric_overview_total plot_boundary_data_locations_total
  plot_data_coverage_timeline_total plot_atmospheric_timeseries_overview_total
  plot_boundary_timeseries_overview_total plot_data_quality_metrics_total
  plot_data_statistics_table_total

subsection \<open>Dictionaries\<close>

lemma map_of_setitem: "map_of (setitem k v d) k' = (if k' = k then Some v else map_of d k')"
  by (induction d) auto

lemma setitem_setitem: "setitem k v' (setitem k v d) = setitem k v' d"
  by (induction d) auto

lemma dict_keys_setitem:
  "dict_keys (setitem k v d) = (if k \<in> set (dict_keys d) then dict_keys d else dict_keys d @ [k])"
  by (induction d) (force simp: dict_keys_def)+

subsection \<open>Regions\<close>

lemma add_subplot_apply:
  "add_subplot n sl pr s = (None, s\<lparr>axes_map := setitem n (new_axes sl pr) (axes_map s)\<rparr>)"
  by (simp add: add_subplot_def exec_def)

lemma region_step:
  assumes "never_raises p"
  shows "seq (add_subplot n sl pr) (seq (on_axes n p) rest) s =
         rest (s\<lparr>axes_map := setitem n (fst (snd (p (new_axes sl pr, world s)))) (axes_map s),
                 world := snd (snd (p (new_axes sl pr, world s)))\<rparr>)"
proof -
  obtain a' w' where r: "p (new_axes sl pr, world s) = (None, (a', w'))"
    using assms by (metis never_raises_def prod.collapse)
  show ?thesis
    by (simp add: seq_def add_subplot_apply on_axes_def map_of_setitem r setitem_setitem)
qed

section \<open>Bar colours\<close>

lemma call_apply: "call c (a, w) = (None, (a\<lparr>calls := calls a @ [c]\<rparr>, w))"
  by (simp add: call_def exec_def)

lemma seq_call: "seq (call c) p (a, w) = p (a\<lparr>calls := calls a @ [c]\<rparr>, w)"
  by (simp add: seq_def call_apply)

lemma block_map_call:
  "block (map (\<lambda>v. call (f v)) vs) (a, w) = (None, (a\<lparr>calls := calls a @ map f vs\<rparr>, w))"
proof (induction vs arbitrary: a)
  case Nil
  show ?case by (simp add: skip_def)
next
  case (Cons v vs)
  show ?case by (simp add: seq_call Cons.IH)
qed

lemma bar_colors_append: "bar_colors (xs @ ys) = bar_colors xs @ bar_colors ys"
  by (induction xs rule: bar_colors.induct) simp_all

lemma bar_colors_labels: "bar_colors (map (\<lambda>v. BarLabel (f v)) vs) = []"
  by (induction vs) simp_all

lemma quality_chart_calls:
  "metrics \<noteq> [] \<Longrightarrow>
   plot_quality_metrics_chart metrics (a, w) =
     (None, (a\<lparr>calls := calls a @
        [BarH (Names (dict_keys metrics)) (dict_values metrics)
           (map (\<lambda>v. if fgt v 0.8 then ''green'' else if fgt v 0.6 then ''orange'' else ''red'')
              (dict_values metrics)),
         Setting ''set_xlim(0, 1)'', Setting ''set_xlabel(Quality Score)'']
        @ map (\<lambda>v. BarLabel (Fixed 2 v)) (dict_values metrics)\<rparr>, w))"
  by (simp add: plot_quality_metrics_chart_def Let_def seq_call seq_skip block_map_call)

text \<open>
  C4, as the code has it: for every non-empty dictionary of scores the grid-quality bar chart
  draws one bar per score, green when the score is greater than 0.8, orange when it is
  greater than 0.6 and at most 0.8, and red otherwise (a NaN score included). The bounds are
  strict: the chart compares with \<open>>\<close>.
\<close>

theorem quality_chart_colors:
  "metrics \<noteq> [] \<Longrightarrow>
   bar_colors (drawn (plot_quality_metrics_chart metrics) a w) =
     bar_colors (calls a) @
     map (\<lambda>v. case v of
                 Fin x \<Rightarrow> if x > 0.8 then ''green'' else if x > 0.6 then ''orange'' else ''red''
               | NaN \<Rightarrow> ''red'')
         (dict_values metrics)"
  by (simp add: drawn_def quality_chart_calls bar_colors_append bar_colors_labels split: pyfloat.splits)

text \<open>The scores \<open>{a: 0.95, b: 0.75, c: 0.5}\<close> are coloured green, orange, red.\<close>

theorem quality_chart_colors_witness:
  "bar_colors (drawn (plot_quality_metrics_chart [(''a'', Fin 0.95), (''b'', Fin 0.75), (''c'', Fin 0.5)])
      (new_axes ((0, 1), (0, 1)) False) quiet_world) = [''green'', ''orange'', ''red'']"
  using quality_chart_colors [of "[(''a'', Fin 0.95), (''b'', Fin 0.75), (''c'', Fin 0.5)]"
      "new_axes ((0, 1), (0, 1)) False" quiet_world]
  by (simp add: new_axes_def dict_values_def)

text \<open>A score of exactly 0.8 is at least 0.8, and its bar is orange, not green.\<close>

theorem quality_chart_boundary_counterexample:
  "(0.8::real) \<ge> 0.8 \<and>
   bar_colors (drawn (plot_quality_metrics_chart [(''a'', Fin 0.8)])
      (new_axes ((0, 1), (0, 1)) False) quiet_world) = [''orange''] \<and>
   bar_colors (drawn (plot_quality_metrics_chart [(''a'', Fin 0.8)])
      (new_axes ((0, 1), (0, 1)) False) quiet_world) \<noteq> [''green'']"
  by (simp add: drawn_def quality_chart_calls new_axes_def dict_values_def)

lemma try_except_ok: "fst (body s) = None \<Longrightarrow> try_except body handler s = body s"
  by (cases "body s") (simp add: try_except_def)

lemma data_quality_chart_calls:
  "data_quality_chart metrics (a, w) =
     (None, (a\<lparr>calls := calls a @
        [Bar (dict_keys metrics) (dict_values metrics)
           (map (\<lambda>v. if fge v 0.9 then ''green'' else if fge v 0.8 then ''orange'' else ''red'')
              (dict_values metrics)),
         Setting ''set_ylim(0, 1)'', Setting ''set_ylabel(Quality Score)'',
         SetTitle ''Data Quality Metrics'', Setting ''tick_params(axis=x, rotation=45)'',
         Setting ''grid(True, axis=y)'']
        @ map (\<lambda>v. BarLabel (Fixed 2 v)) (dict_values metrics)\<rparr>, w))"
  by (simp add: data_quality_chart_def Let_def seq_call seq_skip block_map_call)

lemma plot_data_quality_metrics_colors:
  "bar_colors (drawn (plot_data_quality_metrics self kwargs) a w) =
     bar_colors (calls a) @ [''green'', ''orange'', ''green'', ''orange'', ''green'']"
  by (simp add: drawn_def plot_data_quality_metrics_def seq_def try_except_ok
      data_quality_chart_calls call_apply skip_def bar_colors_append dict_values_def)

text \<open>
  C5, as the code has it: the two panels do not share their thresholds. The data-quality
  chart colours a bar green when its score is at least 0.9, orange when it is at least 0.8
  and below 0.9, and red otherwise, for every dictionary of scores; the method draws it for
  its five hard-coded scores. The grid-quality chart has thresholds of its own: green above
  0.8, orange above 0.6 and up to 0.8, red otherwise.
\<close>

theorem quality_panels_colors:
  "bar_colors (drawn (data_quality_chart metrics) a w) =
     bar_colors (calls a) @
     map (\<lambda>v. case v of
                 Fin x \<Rightarrow> if x \<ge> 0.9 then ''green'' else if x \<ge> 0.8 then ''orange'' else ''red''
               | NaN \<Rightarrow> ''red'')
         (dict_values metrics) \<and>
   bar_colors (drawn (plot_data_quality_metrics self kwargs) a w) =
     bar_colors (calls a) @ [''green'', ''orange'', ''green'', ''orange'', ''green''] \<and>
   (metrics \<noteq> [] \<longrightarrow>
    bar_colors (drawn (plot_quality_metrics_chart metrics) a w) =
      bar_colors (calls a) @
      map (\<lambda>v. case v of
                  Fin x \<Rightarrow> if x > 0.8 then ''green'' else if x > 0.6 then ''orange'' else ''red''
                | NaN \<Rightarrow> ''red'')
          (dict_values metrics))"
  by (simp add: drawn_def data_quality_chart_calls quality_chart_calls bar_colors_append
      bar_colors_labels plot_data_quality_metrics_colors [unfolded drawn_def]
      split: pyfloat.splits)

text \<open>The same three scores on both charts: 0.85 is orange on one and green on the other.\<close>

theorem quality_panels_colors_witness:
  "bar_colors (drawn (data_quality_chart [(''a'', Fin 0.9), (''b'', Fin 0.85), (''c'', Fin 0.5)])
      (new_axes ((2, 3), (1, 2)) False) quiet_world) = [''green'', ''orange'', ''red''] \<and>
   [(''a'', Fin 0.9), (''b'', Fin 0.85), (''c'', Fin 0.5)] \<noteq> [] \<and>
   bar_colors (drawn (plot_quality_metrics_chart [(''a'', Fin 0.9), (''b'', Fin 0.85), (''c'', Fin 0.5)])
      (new_axes ((2, 3), (1, 2)) False) quiet_world) = [''green'', ''green'', ''red'']"
  using quality_panels_colors [of "[(''a'', Fin 0.9), (''b'', Fin 0.85), (''c'', Fin 0.5)]"
      "new_axes ((2, 3), (1, 2)) False" quiet_world]
  by (simp add: new_axes_def dict_values_def)

text \<open>
  A score of 0.85 lies between 0.8 and 0.9, and the grid-quality chart draws it green, not
  orange.
\<close>

theorem quality_chart_thresholds_counterexample:
  "(0.8::real) \<le> 0.85 \<and> (0.85::real) < 0.9 \<and>
   bar_colors (drawn (plot_quality_metrics_chart [(''a'', Fin 0.85)])
      (new_axes ((2, 3), (0, 1)) False) quiet_world) = [''green''] \<and>
   bar_colors (drawn (plot_quality_metrics_chart [(''a'', Fin 0.85)])
      (new_axes ((2, 3), (0, 1)) False) quiet_world) \<noteq> [''orange'']"
  by (simp add: drawn_def quality_chart_calls new_axes_def dict_values_def)

lemma validation_results_calls:
  "results \<noteq> [] \<Longrightarrow>
   plot_validation_results results (a, w) =
     (None, (a\<lparr>calls := calls a @
        [BarH (Positions [0..<length results]) (replicate (length results) (Fin 1))
           (map (\<lambda>status. get [(''PASS'', ''green''), (''WARNING'', ''orange''), (''FAIL'', ''red'')]
                              status ''gray'')
              (dict_values results)),
         Setting ''set_yticks(y_pos)'', SetYTickLabels (dict_keys results),
         Setting ''set_xlim(0, 1)'', Setting ''set_xticks([])'']
        @ map (\<lambda>status. BarLabel (Lit status)) (dict_values results)\<rparr>, w))"
  by (simp add: plot_validation_results_def Let_def seq_call seq_skip block_map_call)

text \<open>
  C6: for every non-empty dictionary of validation results the validation chart draws one
  bar per check, coloured by its status: PASS green, WARNING orange, FAIL red, and any other
  status gray.
\<close>

theorem validation_colors:
  "results \<noteq> [] \<Longrightarrow>
   bar_colors (drawn (plot_validation_results results) a w) =
     bar_colors (calls a) @
     map (\<lambda>status. if status = ''PASS'' then ''green''
                    else if status = ''WARNING'' then ''orange''
                    else if status = ''FAIL'' then ''red''
                    else ''gray'')
         (dict_values results)"
  by (simp add: drawn_def validation_results_calls bar_colors_append bar_colors_labels get_def)

text \<open>The statuses \<open>{x: PASS, y: WARNING, z: UNKNOWN}\<close> are coloured green, orange, gray.\<close>

theorem validation_colors_witness:
  "bar_colors (drawn (plot_validation_results [(''x'', ''PASS''), (''y'', ''WARNING''), (''z'', ''UNKNOWN'')])
      (new_axes ((2, 3), (1, 2)) False) quiet_world) = [''green'', ''orange'', ''gray'']"
  using validation_colors [of "[(''x'', ''PASS''), (''y'', ''WARNING''), (''z'', ''UNKNOWN'')]"
      "new_axes ((2, 3), (1, 2)) False" quiet_world]
  by (simp add: new_axes_def dict_values_def)

section \<open>The statistics table\<close>

lemma draw_apply: "draw cs (a, w) = (None, (a\<lparr>calls := calls a @ cs\<rparr>, w))"
  by (simp add: draw_def exec_def)

lemma call_draw: "call c = draw [c]"
  by (simp add: call_def draw_def)

lemma skip_draw: "skip = draw []"
  by (rule ext) (auto simp: skip_def draw_apply)

lemma seq_draw: "seq (draw xs) (draw ys) = draw (xs @ ys)"
  by (rule ext) (auto simp: seq_def draw_apply)

lemma block_draw: "block (map (\<lambda>i. draw (f i)) xs) = draw (concat (map f xs))"
  by (induction xs) (simp_all add: skip_draw seq_draw)

lemma for_range_draw:
  assumes "\<And>i. i < n \<Longrightarrow> body i = draw (f i)"
  shows "for_range n body = draw (concat (map f [0..<n]))"
proof -
  have h: "map body [0..<n] = map (\<lambda>i. draw (f i)) [0..<n]"
    using assms by simp
  show ?thesis unfolding for_range_def h by (rule block_draw)
qed

lemma upt_0_3: "[0..<3] = [0, 1, 2]"
  by code_simp

lemma fold_snoc: "fold (\<lambda>x acc. acc @ f x) xs acc = acc @ concat (map f xs)"
  by (induction xs arbitrary: acc) simp_all

lemma statistics_row_eq:
  "statistics_row items 3 row =
     concat (map (\<lambda>col. if row * 3 + col < length items
                          then [Lit (fst (items ! (row * 3 + col))), snd (items ! (row * 3 + col))]
                          else [Lit '''', Lit ''''])
                 [0..<3])"
proof -
  have "statistics_row items 3 row =
        fold (\<lambda>col row_data. row_data @
                (if row * 3 + col < length items
                 then [Lit (fst (items ! (row * 3 + col))), snd (items ! (row * 3 + col))]
                 else [Lit '''', Lit ''''])) [0..<3] []"
    unfolding statistics_row_def
    by (rule arg_cong [where f = "\<lambda>g. fold g [0..<3] []"])
       (auto simp: fun_eq_iff Let_def split: prod.splits)
  then show ?thesis by (simp only: fold_snoc append_Nil)
qed

lemma statistics_table_data_eq:
  "statistics_table_data items n_cols n_rows = map (statistics_row items n_cols) [0..<n_rows]"
proof -
  have "statistics_table_data items n_cols n_rows =
        concat (map (\<lambda>row. [statistics_row items n_cols row]) [0..<n_rows])"
    unfolding statistics_table_data_def by (simp only: fold_snoc append_Nil)
  then show ?thesis by simp
qed

lemma length_statistics_row: "length (statistics_row items 3 row) = 6"
  by (simp add: statistics_row_eq upt_0_3)

lemma statistics_row_cells:
  assumes "c < 3"
  shows "statistics_row items 3 row ! (2 * c) =
           (if row * 3 + c < length items then Lit (fst (items ! (row * 3 + c))) else Lit '''')"
    and "statistics_row items 3 row ! (2 * c + 1) =
           (if row * 3 + c < length items then snd (items ! (row * 3 + c)) else Lit '''')"
proof -
  from assms consider "c = 0" | "c = 1" | "c = 2" by linarith
  then show "statistics_row items 3 row ! (2 * c) =
           (if row * 3 + c < length items then Lit (fst (items ! (row * 3 + c))) else Lit '''')"
    by cases (simp_all add: statistics_row_eq upt_0_3)
  from assms consider "c = 0" | "c = 1" | "c = 2" by linarith
  then show "statistics_row items 3 row ! (2 * c + 1) =
           (if row * 3 + c < length items then snd (items ! (row * 3 + c)) else Lit '''')"
    by cases (simp_all add: statistics_row_eq upt_0_3)
qed

lemma tables_append: "tables (xs @ ys) = tables xs @ tables ys"
  by (induction xs rule: tables.induct) simp_all

lemma tables_cell_styles:
  "tables (concat (map (\<lambda>i. map (\<lambda>j. CellStyle i j (f i j) (g i j)) js) is)) = []"
proof (induction "is")
  case Nil
  show ?case by simp
next
  case (Cons i "is")
  have "tables (map (\<lambda>j. CellStyle i j (f i j) (g i j)) js) = []"
    by (induction js) simp_all
  with Cons show ?case by (simp add: tables_append)
qed

lemma ax_table_ok:
  assumes "cells \<noteq> []" and "\<And>row. row \<in> set cells \<Longrightarrow> length row = n"
  shows "ax_table cells [] = draw [Table cells []]"
proof -
  obtain r rs where c: "cells = r # rs" using assms(1) by (cases cells) auto
  have "\<not> (\<exists>row\<in>set rs. length row \<noteq> length r)"
    using assms(2) c by simp
  then show ?thesis by (simp add: ax_table_def c call_draw)
qed

lemma create_statistics_table_draws:
  assumes "stats \<noteq> []"
  shows "create_statistics_table stats title =
         draw ([Table (statistics_table_data stats 3 ((length stats + 2) div 3)) [],
                Setting ''auto_set_font_size(False)'', Setting ''set_fontsize(9)'',
                Setting ''scale(1, 1.5)'']
               @ concat (map (\<lambda>i. map (\<lambda>j. CellStyle i j (if j mod 2 = 0 then ''#f8f9fa'' else ''white'')
                                                 (j mod 2 = 0)) [0..<6])
                             [0..<(length stats + 2) div 3])
               @ [SetTitle title, Setting ''axis(off)''])"
proof -
  let ?n = "(length stats + 2) div 3"
  let ?td = "statistics_table_data stats 3 ?n"
  have n: "0 < ?n" using assms by (cases stats) simp_all
  have td_ne: "?td \<noteq> []" using n by (simp add: statistics_table_data_eq)
  have rows: "\<And>row. row \<in> set ?td \<Longrightarrow> length row = 6"
    by (auto simp: statistics_table_data_eq length_statistics_row)
  have tab: "ax_table ?td [] = draw [Table ?td []]"
    using td_ne rows by (rule ax_table_ok)
  have cols: "table_cols ?td = 6"
    using td_ne rows by (cases ?td) (simp_all add: table_cols_def)
  have trows: "table_rows ?td [] = ?n"
    by (simp add: table_rows_def statistics_table_data_eq)
  have inner: "for_range 6 (\<lambda>j. if j mod 2 = 0 then style_cell (?n, 6) i j ''#f8f9fa'' True
                        else style_cell (?n, 6) i j ''white'' False) =
      draw (map (\<lambda>j. CellStyle i j (if j mod 2 = 0 then ''#f8f9fa'' else ''white'') (j mod 2 = 0)) [0..<6])"
    if i: "i < ?n" for i
  proof -
    have "for_range 6 (\<lambda>j. if j mod 2 = 0 then style_cell (?n, 6) i j ''#f8f9fa'' True
                        else style_cell (?n, 6) i j ''white'' False) =
          draw (concat (map (\<lambda>j. [CellStyle i j (if j mod 2 = 0 then ''#f8f9fa'' else ''white'') (j mod 2 = 0)]) [0..<6]))"
      by (rule for_range_draw) (use i in \<open>simp add: style_cell_def call_draw\<close>)
    then show ?thesis
      by (simp only: concat_map_singleton)
  qed
  have outer: "for_range ?n (\<lambda>i. for_range 6 (\<lambda>j. if j mod 2 = 0 then style_cell (?n, 6) i j ''#f8f9fa'' True
                        else style_cell (?n, 6) i j ''white'' False)) =
     draw (concat (map (\<lambda>i. map (\<lambda>j. CellStyle i j (if j mod 2 = 0 then ''#f8f9fa'' else ''white'')
                                                 (j mod 2 = 0)) [0..<6]) [0..<?n]))"
    by (rule for_range_draw) (rule inner)
  have n_rows: "(length stats + 3 - 1) div 3 = ?n" by simp
  have six: "(3::nat) * 2 = 6" by simp
  show ?thesis
    by (simp only: create_statistics_table_def Let_def assms if_False n_rows six tab cols trows
        outer block.simps call_draw seq_draw skip_draw append_Cons append_Nil append_assoc)
qed

text \<open>
  C8: for every non-empty dictionary of \<open>n\<close> key/value pairs, \<open>_create_statistics_table\<close>
  does not raise and draws one table whose cell text has \<open>(n + 2) div 3\<close> rows (that is,
  \<open>n / 3\<close> rounded up) of 6 cells each: row \<open>r\<close> holds, for the columns \<open>c = 0, 1, 2\<close> from
  left to right, the key and the value of pair number \<open>r * 3 + c\<close>, or two empty strings
  when there is no such pair.
\<close>

theorem statistics_table_layout:
  "stats \<noteq> [] \<Longrightarrow>
   (let td = map (\<lambda>r. concat (map (\<lambda>c. if r * 3 + c < length stats
                                          then [Lit (fst (stats ! (r * 3 + c))), snd (stats ! (r * 3 + c))]
                                          else [Lit '''', Lit ''''])
                                  [0..<3]))
                 [0..<(length stats + 2) div 3]
    in fst (create_statistics_table stats title (a, w)) = None \<and>
       tables (drawn (create_statistics_table stats title) a w) = tables (calls a) @ [td] \<and>
       length td = (length stats + 2) div 3 \<and>
       (\<forall>row \<in> set td. length row = 6))"
proof -
  assume ne: "stats \<noteq> []"
  have td: "statistics_table_data stats 3 ((length stats + 2) div 3) =
        map (\<lambda>r. concat (map (\<lambda>c. if r * 3 + c < length stats
                                          then [Lit (fst (stats ! (r * 3 + c))), snd (stats ! (r * 3 + c))]
                                          else [Lit '''', Lit ''''])
                                  [0..<3]))
                 [0..<(length stats + 2) div 3]"
    by (simp add: statistics_table_data_eq statistics_row_eq)
  have rows: "\<forall>row \<in> set (statistics_table_data stats 3 ((length stats + 2) div 3)). length row = 6"
    by (auto simp: statistics_table_data_eq length_statistics_row)
  have len: "length (statistics_table_data stats 3 ((length stats + 2) div 3)) = (length stats + 2) div 3"
    by (simp add: statistics_table_data_eq)
  have tabs: "tables (drawn (create_statistics_table stats title) a w) =
        tables (calls a) @ [statistics_table_data stats 3 ((length stats + 2) div 3)]"
    by (simp add: drawn_def create_statistics_table_draws [OF ne] draw_apply tables_append
        tables_cell_styles)
  have ok: "fst (create_statistics_table stats title (a, w)) = None"
    by (simp add: create_statistics_table_draws [OF ne] draw_apply)
  show ?thesis
    unfolding Let_def td [symmetric] using ok tabs len rows by blast
qed

text \<open>
  Seven pairs give three rows; the last row holds the seventh pair and four empty strings,
  so its second and third pair slots are empty.
\<close>

theorem statistics_table_layout_witness:
  "[(''k1'', Lit ''v1''), (''k2'', Lit ''v2''), (''k3'', Lit ''v3''), (''k4'', Lit ''v4''),
    (''k5'', Lit ''v5''), (''k6'', Lit ''v6''), (''k7'', Lit ''v7'')] \<noteq> [] \<and>
   fst (create_statistics_table
      [(''k1'', Lit ''v1''), (''k2'', Lit ''v2''), (''k3'', Lit ''v3''), (''k4'', Lit ''v4''),
       (''k5'', Lit ''v5''), (''k6'', Lit ''v6''), (''k7'', Lit ''v7'')] ''Grid Statistics''
      (new_axes ((2, 3), (0, 3)) False, quiet_world)) = None \<and>
   tables (drawn (create_statistics_table
      [(''k1'', Lit ''v1''), (''k2'', Lit ''v2''), (''k3'', Lit ''v3''), (''k4'', Lit ''v4''),
       (''k5'', Lit ''v5''), (''k6'', Lit ''v6''), (''k7'', Lit ''v7'')] ''Grid Statistics'')
      (new_axes ((2, 3), (0, 3)) False) quiet_world) =
     [[[Lit ''k1'', Lit ''v1'', Lit ''k2'', Lit ''v2'', Lit ''k3'', Lit ''v3''],
       [Lit ''k4'', Lit ''v4'', Lit ''k5'', Lit ''v5'', Lit ''k6'', Lit ''v6''],
       [Lit ''k7'', Lit ''v7'', Lit '''', Lit '''', Lit '''', Lit '''']]]"
  using statistics_table_layout [of
      "[(''k1'', Lit ''v1''), (''k2'', Lit ''v2''), (''k3'', Lit ''v3''), (''k4'', Lit ''v4''),
        (''k5'', Lit ''v5''), (''k6'', Lit ''v6''), (''k7'', Lit ''v7'')]"
      "''Grid Statistics''" "new_axes ((2, 3), (0, 3)) False" quiet_world]
  by (simp add: Let_def upt_0_3 new_axes_def)

section \<open>Depths with NaN\<close>

lemma histograms_append: "histograms (xs @ ys) = histograms xs @ histograms ys"
  by (induction xs rule: histograms.induct) simp_all

lemma plot_depth_histogram_draws:
  assumes "grid self = Some g"
  shows "plot_depth_histogram self kwargs (a, w) =
     (None, (a\<lparr>calls := calls a @
        [Hist (filter (\<lambda>d. \<not> isnan d) (depth g)) 50,
         Setting ''set_xlabel(Depth (m))'', Setting ''set_ylabel(Frequency)'',
         SetTitle ''Depth Distribution'', Setting ''grid(True)'']\<rparr>, w))"
  by (simp add: plot_depth_histogram_def assms Let_def try_except_ok call_draw seq_draw
      skip_draw draw_apply)

text \<open>
  C7: on a grid whose depth array is \<open>[1.0, 2.0, 3.0, NaN]\<close> the depth histogram is drawn
  from the three numbers \<open>1, 2, 3\<close> (50 bins), and \<open>_calculate_grid_statistics\<close> reports,
  over the same three numbers, the minimum 1, the maximum 3 and the mean 2 (each printed
  with two decimals and the unit), and the standard deviation \<open>sqrt (2 / 3)\<close>; it logs
  nothing.
\<close>

theorem depth_statistics_skip_nan:
  "grid self = Some g \<Longrightarrow> depth g = [Fin 1, Fin 2, Fin 3, NaN] \<Longrightarrow>
   histograms (drawn (plot_depth_histogram self kwargs) a w) =
     histograms (calls a) @ [([Fin 1, Fin 2, Fin 3], 50)] \<and>
   map_of (fst (calculate_grid_statistics self w)) ''Min Depth'' =
     Some (Cat [Fixed 2 (Fin 1), Lit '' m'']) \<and>
   map_of (fst (calculate_grid_statistics self w)) ''Max Depth'' =
     Some (Cat [Fixed 2 (Fin 3), Lit '' m'']) \<and>
   map_of (fst (calculate_grid_statistics self w)) ''Mean Depth'' =
     Some (Cat [Fixed 2 (Fin 2), Lit '' m'']) \<and>
   map_of (fst (calculate_grid_statistics self w)) ''Depth Std'' =
     Some (Cat [Fixed 2 (Fin (sqrt (2 / 3))), Lit '' m'']) \<and>
   snd (calculate_grid_statistics self w) = w"
  by (simp add: drawn_def plot_depth_histogram_draws histograms_append
      calculate_grid_statistics_def np_min_def np_max_def np_mean_def np_std_def Let_def)

text \<open>
  The plotter \<open>plotter_with_grid\<close> has such a grid.
\<close>

theorem depth_statistics_skip_nan_witness:
  "grid plotter_with_grid \<noteq> None \<and>
   depth (the (grid plotter_with_grid)) = [Fin 1, Fin 2, Fin 3, NaN] \<and>
   histograms (drawn (plot_depth_histogram plotter_with_grid []) (new_axes ((1, 2), (1, 2)) False)
      quiet_world) = [([Fin 1, Fin 2, Fin 3], 50)] \<and>
   map_of (fst (calculate_grid_statistics plotter_with_grid quiet_world)) ''Min Depth'' =
     Some (Cat [Fixed 2 (Fin 1), Lit '' m'']) \<and>
   map_of (fst (calculate_grid_statistics plotter_with_grid quiet_world)) ''Max Depth'' =
     Some (Cat [Fixed 2 (Fin 3), Lit '' m'']) \<and>
   map_of (fst (calculate_grid_statistics plotter_with_grid quiet_world)) ''Mean Depth'' =
     Some (Cat [Fixed 2 (Fin 2), Lit '' m''])"
  using depth_statistics_skip_nan [of plotter_with_grid "the (grid plotter_with_grid)" "[]"
      "new_axes ((1, 2), (1, 2)) False" quiet_world]
  by (simp add: plotter_with_grid_def new_axes_def)

section \<open>Composition: regions, saving and the returned keys\<close>

lemma skip_seq: "seq skip p = p"
  by (rule ext) (simp add: seq_def skip_def)

lemma exec_seq: "seq (exec f) rest s = rest (f s)"
  by (simp add: seq_def exec_def)

lemma fig_suptitle_step:
  "seq (fig_suptitle t) rest s = rest (s\<lparr>fig := (fig s)\<lparr>suptitle := Some t\<rparr>\<rparr>)"
  by (simp add: fig_suptitle_def exec_seq)

lemma on_axes_step:
  assumes "never_raises p" and "map_of (axes_map s) n \<noteq> None"
  shows "seq (on_axes n p) rest s =
         rest (s\<lparr>axes_map := setitem n (fst (snd (p (the (map_of (axes_map s) n), world s)))) (axes_map s),
                 world := snd (snd (p (the (map_of (axes_map s) n), world s)))\<rparr>)"
proof -
  obtain a where a: "map_of (axes_map s) n = Some a"
    using assms(2) by auto
  obtain a' w' where r: "p (a, world s) = (None, (a', w'))"
    using assms(1) by (metis never_raises_def prod.collapse)
  show ?thesis
    by (simp add: seq_def on_axes_def a r)
qed

lemma delegate_region_step:
  "seq (add_subplot n sl pr) (seq (on_axes n (delegate d)) rest) s =
     (case d (new_axes sl pr) of
        (Some e, a') \<Rightarrow> (Some e, s\<lparr>axes_map := setitem n a' (axes_map s)\<rparr>)
      | (None, a') \<Rightarrow> rest (s\<lparr>axes_map := setitem n a' (axes_map s)\<rparr>))"
  by (simp add: seq_def add_subplot_apply on_axes_def map_of_setitem delegate_def setitem_setitem
      split: prod.splits option.splits)

lemma save_plot_apply:
  "save_plot env self sp s =
     (None,
      s\<lparr>world :=
          (case mkdir_result env (Parent (to_path sp)) of
             Some e \<Rightarrow>
               \<lparr>logged = logged (world s) @
                  [(ERROR, Cat [Lit ''Could not save plot to '', OfPath (to_path sp), Lit '': '', OfExn e])],
                fs_trace = fs_trace (world s) @ [Mkdir (Parent (to_path sp))]\<rparr>
           | None \<Rightarrow>
               (case savefig_result env (to_path sp) of
                  Some e \<Rightarrow>
                    \<lparr>logged = logged (world s) @
                       [(ERROR, Cat [Lit ''Could not save plot to '', OfPath (to_path sp), Lit '': '', OfExn e])],
                     fs_trace = fs_trace (world s) @
                       [Mkdir (Parent (to_path sp)),
                        SaveFig (to_path sp) (dpi (plot_config self)) (fig s) (axes_map s)]\<rparr>
                | None \<Rightarrow>
                    \<lparr>logged = logged (world s) @
                       [(INFO, Cat [Lit ''Overview plot saved to '', OfPath (to_path sp)])],
                     fs_trace = fs_trace (world s) @
                       [Mkdir (Parent (to_path sp)),
                        SaveFig (to_path sp) (dpi (plot_config self)) (fig s) (axes_map s)]\<rparr>))\<rparr>)"
  by (simp add: save_plot_def Let_def try_except_def seq_def path_mkdir_def savefig_def
      log_state_def exec_def skip_def split: option.splits)

lemma save_if_requested_total: "never_raises (save_if_requested env self sp)"
  by (simp add: never_raises_def save_if_requested_def save_plot_apply skip_def)

lemma save_if_requested_fig: "fig (snd (save_if_requested env self sp s)) = fig s"
  by (simp add: save_if_requested_def save_plot_apply skip_def)

lemma save_if_requested_axes: "axes_map (snd (save_if_requested env self sp s)) = axes_map s"
  by (simp add: save_if_requested_def save_plot_apply skip_def)

lemma return_after_save:
  "return_fig_axes (save_if_requested env self sp s) =
     (Inr (fig s, axes_map s), world (snd (save_if_requested env self sp s)))"
proof -
  have "fst (save_if_requested env self sp s) = None"
    using save_if_requested_total by (simp add: never_raises_def)
  then show ?thesis
    by (cases "save_if_requested env self sp s")
       (use save_if_requested_fig [of env self sp s] save_if_requested_axes [of env self sp s]
         in \<open>simp add: return_fig_axes_def\<close>)
qed

lemma comprehensive_keys:
  "returned_keys (plot_comprehensive_overview env self figsz iv iq ids sp kwargs w) =
     Some ({''grid'', ''boundaries'', ''data_locations'', ''timeseries'', ''info''}
           \<union> (if iq then {''quality''} else {})
           \<union> (if iv then {''validation''} else {})
           \<union> (if ids then {''data_summary''} else {}))"
  by (cases iv; cases iq; cases ids)
     (simp_all add: plot_comprehensive_overview_def region_step panels_total seq_assoc seq_skip
        skip_seq fig_suptitle_step return_after_save returned_keys_def new_figure_def
        dict_keys_setitem, auto simp: dict_keys_def)


lemma data_analysis_keys:
  "returned_keys (plot_data_analysis_overview env self figsz sp kwargs w) =
     Some {''atmospheric'', ''boundary_locations'', ''coverage'', ''atm_timeseries'',
           ''boundary_ts'', ''data_quality'', ''data_stats''}"
  by (simp add: plot_data_analysis_overview_def region_step panels_total seq_skip
        fig_suptitle_step return_after_save returned_keys_def new_figure_def
        dict_keys_setitem)
     (auto simp: dict_keys_def)

lemma return_raised: "return_fig_axes (Some e, s) = (Inl e, world s)"
  by (simp add: return_fig_axes_def)

lemma grid_analysis_keys:
  "returned_keys (plot_grid_analysis_overview env self figsz sp kwargs w) =
     (if fst (plot_bathymetry (grid_plotter self) kwargs (new_axes ((0, 1), (0, 2)) True)) = None \<and>
         fst (plot_grid_quality (grid_plotter self) kwargs (new_axes ((0, 1), (2, 3)) True)) = None \<and>
         fst (plot_boundaries (grid_plotter self) kwargs (new_axes ((1, 2), (0, 1)) True)) = None
      then Some {''grid'', ''quality'', ''boundaries'', ''depth_hist'', ''size_hist'', ''stats''}
      else None)"
proof -
  obtain r1 a1 where d1:
    "plot_bathymetry (grid_plotter self) kwargs (new_axes ((0, 1), (0, 2)) True) = (r1, a1)"
    by (cases "plot_bathymetry (grid_plotter self) kwargs (new_axes ((0, 1), (0, 2)) True)")
  obtain r2 a2 where d2:
    "plot_grid_quality (grid_plotter self) kwargs (new_axes ((0, 1), (2, 3)) True) = (r2, a2)"
    by (cases "plot_grid_quality (grid_plotter self) kwargs (new_axes ((0, 1), (2, 3)) True)")
  obtain r3 a3 where d3:
    "plot_boundaries (grid_plotter self) kwargs (new_axes ((1, 2), (0, 1)) True) = (r3, a3)"
    by (cases "plot_boundaries (grid_plotter self) kwargs (new_axes ((1, 2), (0, 1)) True)")
  show ?thesis
    by (cases r1; cases r2; cases r3)
       (simp_all add: plot_grid_analysis_overview_def region_step delegate_region_step
          on_axes_step never_raises_call panels_total seq_skip map_of_setitem d1 d2 d3
          fig_suptitle_step return_after_save return_raised returned_keys_def new_figure_def
          dict_keys_setitem del: One_nat_def,
        auto simp: dict_keys_def)
qed

section \<open>The keys of the returned mapping\<close>

text \<open>
  C2: whenever a composing call returns, the key set of the mapping it returns is the
  documented one: for \<open>plot_comprehensive_overview\<close> the five fixed keys and one key per
  flag that is set, for \<open>plot_grid_analysis_overview\<close> its six keys, for
  \<open>plot_data_analysis_overview\<close> its seven keys; no more and no fewer.
\<close>

theorem returned_key_sets:
  "(\<forall>K. returned_keys (plot_comprehensive_overview env self figsz include_validation
            include_quality_metrics include_data_summary save_path kwargs w) = Some K \<longrightarrow>
        K = {''grid'', ''boundaries'', ''data_locations'', ''timeseries'', ''info''}
            \<union> (if include_quality_metrics then {''quality''} else {})
            \<union> (if include_validation then {''validation''} else {})
            \<union> (if include_data_summary then {''data_summary''} else {})) \<and>
   (\<forall>K. returned_keys (plot_grid_analysis_overview env self figsz save_path kwargs w) = Some K \<longrightarrow>
        K = {''grid'', ''quality'', ''boundaries'', ''depth_hist'', ''size_hist'', ''stats''}) \<and>
   (\<forall>K. returned_keys (plot_data_analysis_overview env self figsz save_path kwargs w) = Some K \<longrightarrow>
        K = {''atmospheric'', ''boundary_locations'', ''coverage'', ''atm_timeseries'',
             ''boundary_ts'', ''data_quality'', ''data_stats''})"
proof (intro conjI allI impI)
  fix K
  assume "returned_keys (plot_comprehensive_overview env self figsz include_validation
            include_quality_metrics include_data_summary save_path kwargs w) = Some K"
  then show "K = {''grid'', ''boundaries'', ''data_locations'', ''timeseries'', ''info''}
            \<union> (if include_quality_metrics then {''quality''} else {})
            \<union> (if include_validation then {''validation''} else {})
            \<union> (if include_data_summary then {''data_summary''} else {})"
    by (simp only: comprehensive_keys option.inject)
next
  fix K
  assume "returned_keys (plot_grid_analysis_overview env self figsz save_path kwargs w) = Some K"
  then show "K = {''grid'', ''quality'', ''boundaries'', ''depth_hist'', ''size_hist'', ''stats''}"
    by (simp add: grid_analysis_keys split: if_splits)
next
  fix K
  assume "returned_keys (plot_data_analysis_overview env self figsz save_path kwargs w) = Some K"
  then show "K = {''atmospheric'', ''boundary_locations'', ''coverage'', ''atm_timeseries'',
             ''boundary_ts'', ''data_quality'', ''data_stats''}"
    by (simp only: data_analysis_keys option.inject)
qed

text \<open>
  The three calls on \<open>plotter_with_grid\<close>, with default arguments, return, and with the
  documented keys.
\<close>

theorem returned_key_sets_witness:
  "returned_keys (plot_comprehensive_overview writable_fs plotter_with_grid (20, 16) True True True
      None [] quiet_world) \<noteq> None \<and>
   the (returned_keys (plot_comprehensive_overview writable_fs plotter_with_grid (20, 16) True True
      True None [] quiet_world)) =
     {''grid'', ''boundaries'', ''data_locations'', ''timeseries'', ''info'',
      ''quality'', ''validation'', ''data_summary''} \<and>
   returned_keys (plot_grid_analysis_overview writable_fs plotter_with_grid (20, 16) None []
      quiet_world) \<noteq> None \<and>
   the (returned_keys (plot_grid_analysis_overview writable_fs plotter_with_grid (20, 16) None []
      quiet_world)) =
     {''grid'', ''quality'', ''boundaries'', ''depth_hist'', ''size_hist'', ''stats''} \<and>
   returned_keys (plot_data_analysis_overview writable_fs plotter_with_grid (20, 16) None []
      quiet_world) \<noteq> None \<and>
   the (returned_keys (plot_data_analysis_overview writable_fs plotter_with_grid (20, 16) None []
      quiet_world)) =
     {''atmospheric'', ''boundary_locations'', ''coverage'', ''atm_timeseries'',
      ''boundary_ts'', ''data_quality'', ''data_stats''}"
proof -
  note t = returned_key_sets [of writable_fs plotter_with_grid "(20, 16)" True True True None "[]"
      quiet_world]
  obtain Kc where c: "returned_keys (plot_comprehensive_overview writable_fs plotter_with_grid
      (20, 16) True True True None [] quiet_world) = Some Kc"
    by (simp add: comprehensive_keys)
  obtain Kg where g: "returned_keys (plot_grid_analysis_overview writable_fs plotter_with_grid
      (20, 16) None [] quiet_world) = Some Kg"
    by (simp add: grid_analysis_keys plotter_with_grid_def skip_def)
  obtain Kd where d: "returned_keys (plot_data_analysis_overview writable_fs plotter_with_grid
      (20, 16) None [] quiet_world) = Some Kd"
    by (simp add: data_analysis_keys)
  have "Kc = {''grid'', ''boundaries'', ''data_locations'', ''timeseries'', ''info'',
      ''quality'', ''validation'', ''data_summary''}"
    using t c by (simp add: insert_commute)
  moreover have "Kg = {''grid'', ''quality'', ''boundaries'', ''depth_hist'', ''size_hist'', ''stats''}"
    using t g by simp
  moreover have "Kd = {''atmospheric'', ''boundary_locations'', ''coverage'', ''atm_timeseries'',
      ''boundary_ts'', ''data_quality'', ''data_stats''}"
    using t d by simp
  ultimately show ?thesis using c g d by simp
qed

text \<open>
  C3: among the calls of \<open>plot_comprehensive_overview\<close> that return, for each flag and
  every value of the other two, the key of the flag is in the mapping returned when the flag
  is true, and the mapping returned when it is false has the same key set without that key;
  the five other keys are in the returned mapping whatever the flags are.
\<close>

theorem comprehensive_flag_keys:
  "(\<forall>K1 K0.
      returned_keys (plot_comprehensive_overview env self figsz True include_quality_metrics
        include_data_summary save_path kwargs w) = Some K1 \<and>
      returned_keys (plot_comprehensive_overview env self figsz False include_quality_metrics
        include_data_summary save_path kwargs w) = Some K0 \<longrightarrow>
      ''validation'' \<in> K1 \<and> K0 = K1 - {''validation''}) \<and>
   (\<forall>K1 K0.
      returned_keys (plot_comprehensive_overview env self figsz include_validation True
        include_data_summary save_path kwargs w) = Some K1 \<and>
      returned_keys (plot_comprehensive_overview env self figsz include_validation False
        include_data_summary save_path kwargs w) = Some K0 \<longrightarrow>
      ''quality'' \<in> K1 \<and> K0 = K1 - {''quality''}) \<and>
   (\<forall>K1 K0.
      returned_keys (plot_comprehensive_overview env self figsz include_validation
        include_quality_metrics True save_path kwargs w) = Some K1 \<and>
      returned_keys (plot_comprehensive_overview env self figsz include_validation
        include_quality_metrics False save_path kwargs w) = Some K0 \<longrightarrow>
      ''data_summary'' \<in> K1 \<and> K0 = K1 - {''data_summary''}) \<and>
   (\<forall>K.
      returned_keys (plot_comprehensive_overview env self figsz include_validation
        include_quality_metrics include_data_summary save_path kwargs w) = Some K \<longrightarrow>
      {''grid'', ''boundaries'', ''data_locations'', ''timeseries'', ''info''} \<subseteq> K)"
  by (cases include_validation; cases include_quality_metrics; cases include_data_summary)
     (simp_all add: comprehensive_keys, auto)

text \<open>
  The calls on \<open>plotter_with_grid\<close> with all flags set and with one flag cleared return,
  and their key sets differ by the key of that flag.
\<close>

theorem comprehensive_flag_keys_witness:
  "returned_keys (plot_comprehensive_overview writable_fs plotter_with_grid (20, 16) True True True
      None [] quiet_world) \<noteq> None \<and>
   returned_keys (plot_comprehensive_overview writable_fs plotter_with_grid (20, 16) False True True
      None [] quiet_world) \<noteq> None \<and>
   returned_keys (plot_comprehensive_overview writable_fs plotter_with_grid (20, 16) True False True
      None [] quiet_world) \<noteq> None \<and>
   returned_keys (plot_comprehensive_overview writable_fs plotter_with_grid (20, 16) True True False
      None [] quiet_world) \<noteq> None \<and>
   ''validation'' \<in> the (returned_keys (plot_comprehensive_overview writable_fs plotter_with_grid
      (20, 16) True True True None [] quiet_world)) \<and>
   the (returned_keys (plot_comprehensive_overview writable_fs plotter_with_grid (20, 16) False True
      True None [] quiet_world)) =
     the (returned_keys (plot_comprehensive_overview writable_fs plotter_with_grid (20, 16) True True
      True None [] quiet_world)) - {''validation''} \<and>
   ''quality'' \<in> the (returned_keys (plot_comprehensive_overview writable_fs plotter_with_grid
      (20, 16) True True True None [] quiet_world)) \<and>
   the (returned_keys (plot_comprehensive_overview writable_fs plotter_with_grid (20, 16) True False
      True None [] quiet_world)) =
     the (returned_keys (plot_comprehensive_overview writable_fs plotter_with_grid (20, 16) True True
      True None [] quiet_world)) - {''quality''} \<and>
   ''data_summary'' \<in> the (returned_keys (plot_comprehensive_overview writable_fs plotter_with_grid
      (20, 16) True True True None [] quiet_world)) \<and>
   the (returned_keys (plot_comprehensive_overview writable_fs plotter_with_grid (20, 16) True True
      False None [] quiet_world)) =
     the (returned_keys (plot_comprehensive_overview writable_fs plotter_with_grid (20, 16) True True
      True None [] quiet_world)) - {''data_summary''} \<and>
   {''grid'', ''boundaries'', ''data_locations'', ''timeseries'', ''info''} \<subseteq>
     the (returned_keys (plot_comprehensive_overview writable_fs plotter_with_grid (20, 16) True True
      True None [] quiet_world))"
proof -
  note t = comprehensive_flag_keys [where env = writable_fs and self = plotter_with_grid
      and figsz = "(20, 16)" and include_validation = True and include_quality_metrics = True
      and include_data_summary = True and save_path = None and kwargs = "[]" and w = quiet_world]
  note tv = t [THEN conjunct1, rule_format]
  note tq = t [THEN conjunct2, THEN conjunct1, rule_format]
  note td = t [THEN conjunct2, THEN conjunct2, THEN conjunct1, rule_format]
  note tf = t [THEN conjunct2, THEN conjunct2, THEN conjunct2, rule_format]
  obtain Kttt where ttt: "returned_keys (plot_comprehensive_overview writable_fs plotter_with_grid
      (20, 16) True True True None [] quiet_world) = Some Kttt"
    by (simp only: comprehensive_keys)
  obtain Kftt where ftt: "returned_keys (plot_comprehensive_overview writable_fs plotter_with_grid
      (20, 16) False True True None [] quiet_world) = Some Kftt"
    by (simp only: comprehensive_keys)
  obtain Ktft where tft: "returned_keys (plot_comprehensive_overview writable_fs plotter_with_grid
      (20, 16) True False True None [] quiet_world) = Some Ktft"
    by (simp only: comprehensive_keys)
  obtain Kttf where ttf: "returned_keys (plot_comprehensive_overview writable_fs plotter_with_grid
      (20, 16) True True False None [] quiet_world) = Some Kttf"
    by (simp only: comprehensive_keys)
  have v: "''validation'' \<in> Kttt \<and> Kftt = Kttt - {''validation''}"
    by (rule tv [OF conjI [OF ttt ftt]])
  have q: "''quality'' \<in> Kttt \<and> Ktft = Kttt - {''quality''}"
    by (rule tq [OF conjI [OF ttt tft]])
  have d: "''data_summary'' \<in> Kttt \<and> Kttf = Kttt - {''data_summary''}"
    by (rule td [OF conjI [OF ttt ttf]])
  have f: "{''grid'', ''boundaries'', ''data_locations'', ''timeseries'', ''info''} \<subseteq> Kttt"
    by (rule tf [OF ttt])
  show ?thesis
    unfolding ttt ftt tft ttf option.sel
    using v q d f by (intro conjI) simp_all
qed

section \<open>A failing sub-plotter\<close>

lemma main_grid_panel_on_failure:
  assumes "plot_bathymetry (grid_plotter self) kwargs a = (Some e, a')"
  shows "plot_main_grid_panel self kwargs (a, w) =
     (None,
      (a'\<lparr>calls := calls a' @ [Placeholder (Lit ''Grid visualization unavailable'')]\<rparr>,
       w\<lparr>logged := logged w @ [(WARNING, Cat [Lit ''Could not plot main grid panel: '', OfExn e])]\<rparr>))"
  by (simp add: plot_main_grid_panel_def try_except_def seq_def delegate_def assms
      log_warning_def exec_def call_apply skip_def)

lemma comprehensive_grid_axes:
  "\<exists>fg ax. fst (plot_comprehensive_overview env self figsz iv iq ids sp kwargs w) = Inr (fg, ax) \<and>
      map_of ax ''grid'' =
        Some (fst (snd (plot_main_grid_panel self kwargs (new_axes ((0, 2), (0, 2)) True, w))))"
  by (cases iv; cases iq; cases ids)
     (simp_all add: plot_comprehensive_overview_def region_step panels_total seq_assoc seq_skip
        skip_seq fig_suptitle_step return_after_save new_figure_def map_of_setitem)

text \<open>
  C1, where the code departs from it: \<open>plot_grid_analysis_overview\<close> calls
  \<open>grid_plotter.plot_bathymetry\<close> on the region \<open>grid\<close> outside any \<open>try\<close>, so an exception
  of that call is raised by the composing call itself. \<open>plot_comprehensive_overview\<close> makes
  the same call inside \<open>_plot_main_grid_panel\<close>, which catches the exception: the call
  returns, and the last thing drawn on its region \<open>grid\<close> is the placeholder label.
\<close>

theorem grid_analysis_propagates_delegate_failure:
  assumes "fst (plot_bathymetry (grid_plotter self) kwargs (new_axes ((0, 1), (0, 2)) True)) = Some e"
    and "fst (plot_bathymetry (grid_plotter self) kwargs (new_axes ((0, 2), (0, 2)) True)) = Some e'"
  shows "fst (plot_grid_analysis_overview env self figsz save_path kwargs w) = Inl e \<and>
     (\<exists>fg ax a. fst (plot_comprehensive_overview env self figsz include_validation
                      include_quality_metrics include_data_summary save_path kwargs w) = Inr (fg, ax) \<and>
        map_of ax ''grid'' = Some a \<and>
        last (calls a) = Placeholder (Lit ''Grid visualization unavailable''))"
proof
  obtain a1 where d1:
    "plot_bathymetry (grid_plotter self) kwargs (new_axes ((0, 1), (0, 2)) True) = (Some e, a1)"
    using assms(1)
    by (cases "plot_bathymetry (grid_plotter self) kwargs (new_axes ((0, 1), (0, 2)) True)") simp
  show "fst (plot_grid_analysis_overview env self figsz save_path kwargs w) = Inl e"
    by (simp add: plot_grid_analysis_overview_def delegate_region_step d1 return_raised
        del: One_nat_def)
next
  obtain a2 where d2:
    "plot_bathymetry (grid_plotter self) kwargs (new_axes ((0, 2), (0, 2)) True) = (Some e', a2)"
    using assms(2)
    by (cases "plot_bathymetry (grid_plotter self) kwargs (new_axes ((0, 2), (0, 2)) True)") simp
  show "\<exists>fg ax a. fst (plot_comprehensive_overview env self figsz include_validation
                      include_quality_metrics include_data_summary save_path kwargs w) = Inr (fg, ax) \<and>
        map_of ax ''grid'' = Some a \<and>
        last (calls a) = Placeholder (Lit ''Grid visualization unavailable'')"
    using comprehensive_grid_axes [of env self figsz include_validation include_quality_metrics
        include_data_summary save_path kwargs w]
    by (auto simp: main_grid_panel_on_failure [OF d2])
qed

text \<open>
  On \<open>plotter_without_grid\<close>, whose grid sub-plotter raises: the grid analysis raises the
  sub-plotter's exception, the comprehensive overview returns with the placeholder.
\<close>

theorem grid_analysis_propagates_delegate_failure_witness:
  "fst (plot_bathymetry (grid_plotter plotter_without_grid) [] (new_axes ((0, 1), (0, 2)) True)) =
     Some (Exception ''no grid'') \<and>
   fst (plot_bathymetry (grid_plotter plotter_without_grid) [] (new_axes ((0, 2), (0, 2)) True)) =
     Some (Exception ''no grid'') \<and>
   fst (plot_grid_analysis_overview writable_fs plotter_without_grid (16, 12) None [] quiet_world) =
     Inl (Exception ''no grid'') \<and>
   (\<exists>fg ax a. fst (plot_comprehensive_overview writable_fs plotter_without_grid (20, 16) True True
                    True None [] quiet_world) = Inr (fg, ax) \<and>
        map_of ax ''grid'' = Some a \<and>
        last (calls a) = Placeholder (Lit ''Grid visualization unavailable''))"
proof -
  have h1: "fst (plot_bathymetry (grid_plotter plotter_without_grid) [] (new_axes ((0, 1), (0, 2)) True)) =
     Some (Exception ''no grid'')"
    by (simp add: plotter_without_grid_def raise_def)
  have h2: "fst (plot_bathymetry (grid_plotter plotter_without_grid) [] (new_axes ((0, 2), (0, 2)) True)) =
     Some (Exception ''no grid'')"
    by (simp add: plotter_without_grid_def raise_def)
  have g: "fst (plot_grid_analysis_overview writable_fs plotter_without_grid (16, 12) None [] quiet_world) =
     Inl (Exception ''no grid'')"
    using grid_analysis_propagates_delegate_failure [OF h1 h2] by blast
  have c: "\<exists>fg ax a. fst (plot_comprehensive_overview writable_fs plotter_without_grid (20, 16) True True
                    True None [] quiet_world) = Inr (fg, ax) \<and>
        map_of ax ''grid'' = Some a \<and>
        last (calls a) = Placeholder (Lit ''Grid visualization unavailable'')"
    using grid_analysis_propagates_delegate_failure [OF h1 h2] by blast
  show ?thesis using h1 h2 g c by blast
qed

section \<open>Saving\<close>

lemma save_if_requested_None: "save_if_requested env self None = skip"
  by (simp add: save_if_requested_def)

lemma state_rebuild: "\<lparr>fig = fig s, axes_map = axes_map s, world = world s\<rparr> = s"
  by (cases s) simp

lemma compose_with_save:
  "return_fig_axes (seq pre (save_if_requested env self save_path) s0) =
     (case return_fig_axes (seq pre (save_if_requested env self None) s0) of
        (Inl e, w1) \<Rightarrow> (Inl e, w1)
      | (Inr (fg, ax), w1) \<Rightarrow>
          (Inr (fg, ax),
           if truthy save_path
           then world (snd (save_plot env self (the save_path) \<lparr>fig = fg, axes_map = ax, world = w1\<rparr>))
           else w1))"
proof -
  obtain r s1 where p: "pre s0 = (r, s1)" by (cases "pre s0")
  show ?thesis
  proof (cases r)
    case (Some e)
    then show ?thesis by (simp add: seq_def p return_fig_axes_def)
  next
    case None
    then show ?thesis
      by (simp add: seq_def p save_if_requested_None skip_def return_after_save)
         (simp add: return_fig_axes_def save_if_requested_def skip_def state_rebuild)
  qed
qed

lemma comprehensive_save:
  "plot_comprehensive_overview env self figsz iv iq ids save_path kwargs w =
     (case plot_comprehensive_overview env self figsz iv iq ids None kwargs w of
        (Inl e, w1) \<Rightarrow> (Inl e, w1)
      | (Inr (fg, ax), w1) \<Rightarrow>
          (Inr (fg, ax),
           if truthy save_path
           then world (snd (save_plot env self (the save_path) \<lparr>fig = fg, axes_map = ax, world = w1\<rparr>))
           else w1))"
  unfolding plot_comprehensive_overview_def block.simps seq_skip seq_assoc [symmetric]
  by (rule compose_with_save)

lemma grid_analysis_save:
  "plot_grid_analysis_overview env self figsz save_path kwargs w =
     (case plot_grid_analysis_overview env self figsz None kwargs w of
        (Inl e, w1) \<Rightarrow> (Inl e, w1)
      | (Inr (fg, ax), w1) \<Rightarrow>
          (Inr (fg, ax),
           if truthy save_path
           then world (snd (save_plot env self (the save_path) \<lparr>fig = fg, axes_map = ax, world = w1\<rparr>))
           else w1))"
  unfolding plot_grid_analysis_overview_def block.simps seq_skip seq_assoc [symmetric]
  by (rule compose_with_save)

lemma data_analysis_save:
  "plot_data_analysis_overview env self figsz save_path kwargs w =
     (case plot_data_analysis_overview env self figsz None kwargs w of
        (Inl e, w1) \<Rightarrow> (Inl e, w1)
      | (Inr (fg, ax), w1) \<Rightarrow>
          (Inr (fg, ax),
           if truthy save_path
           then world (snd (save_plot env self (the save_path) \<lparr>fig = fg, axes_map = ax, world = w1\<rparr>))
           else w1))"
  unfolding plot_data_analysis_overview_def block.simps seq_skip seq_assoc [symmetric]
  by (rule compose_with_save)

text \<open>
  C9: \<open>_save_plot\<close>, for every \<open>save_path\<close> and on every file system, does not raise and
  leaves the figure and the mapping as they are; it first asks for the parent directory of
  the path to be made, and writes the figure (as composed, at the configured dpi) only when
  that succeeded; when either step fails it logs one message at error level, otherwise one
  at info level. Each composing call with a \<open>save_path\<close> ends as the same call without
  one does: it raises the same exception, or returns the same figure and mapping, the world
  being the one \<open>_save_plot\<close> leaves when \<open>save_path\<close> is truthy.
\<close>

theorem save_plot_contract:
  "fst (save_plot env self sp s) = None \<and>
   fig (snd (save_plot env self sp s)) = fig s \<and>
   axes_map (snd (save_plot env self sp s)) = axes_map s \<and>
   fs_trace (world (snd (save_plot env self sp s))) =
     fs_trace (world s) @ Mkdir (Parent (to_path sp)) #
       (if mkdir_result env (Parent (to_path sp)) = None
        then [SaveFig (to_path sp) (dpi (plot_config self)) (fig s) (axes_map s)]
        else []) \<and>
   logged (world (snd (save_plot env self sp s))) =
     logged (world s) @
       [case mkdir_result env (Parent (to_path sp)) of
          Some e \<Rightarrow>
            (ERROR, Cat [Lit ''Could not save plot to '', OfPath (to_path sp), Lit '': '', OfExn e])
        | None \<Rightarrow>
            (case savefig_result env (to_path sp) of
               Some e \<Rightarrow>
                 (ERROR, Cat [Lit ''Could not save plot to '', OfPath (to_path sp), Lit '': '', OfExn e])
             | None \<Rightarrow> (INFO, Cat [Lit ''Overview plot saved to '', OfPath (to_path sp)]))] \<and>
   plot_comprehensive_overview env self figsz include_validation include_quality_metrics
       include_data_summary save_path kwargs w =
     (case plot_comprehensive_overview env self figsz include_validation include_quality_metrics
             include_data_summary None kwargs w of
        (Inl e, w1) \<Rightarrow> (Inl e, w1)
      | (Inr (fg, ax), w1) \<Rightarrow>
          (Inr (fg, ax),
           if truthy save_path
           then world (snd (save_plot env self (the save_path) \<lparr>fig = fg, axes_map = ax, world = w1\<rparr>))
           else w1)) \<and>
   plot_grid_analysis_overview env self figsz save_path kwargs w =
     (case plot_grid_analysis_overview env self figsz None kwargs w of
        (Inl e, w1) \<Rightarrow> (Inl e, w1)
      | (Inr (fg, ax), w1) \<Rightarrow>
          (Inr (fg, ax),
           if truthy save_path
           then world (snd (save_plot env self (the save_path) \<lparr>fig = fg, axes_map = ax, world = w1\<rparr>))
           else w1)) \<and>
   plot_data_analysis_overview env self figsz save_path kwargs w =
     (case plot_data_analysis_overview env self figsz None kwargs w of
        (Inl e, w1) \<Rightarrow> (Inl e, w1)
      | (Inr (fg, ax), w1) \<Rightarrow>
          (Inr (fg, ax),
           if truthy save_path
           then world (snd (save_plot env self (the save_path) \<lparr>fig = fg, axes_map = ax, world = w1\<rparr>))
           else w1))"
proof -
  have "fst (save_plot env self sp s) = None"
    and "fig (snd (save_plot env self sp s)) = fig s"
    and "axes_map (snd (save_plot env self sp s)) = axes_map s"
    by (simp_all add: save_plot_apply)
  moreover have "fs_trace (world (snd (save_plot env self sp s))) =
     fs_trace (world s) @ Mkdir (Parent (to_path sp)) #
       (if mkdir_result env (Parent (to_path sp)) = None
        then [SaveFig (to_path sp) (dpi (plot_config self)) (fig s) (axes_map s)]
        else [])"
    by (simp add: save_plot_apply split: option.splits)
  moreover have "logged (world (snd (save_plot env self sp s))) =
     logged (world s) @
       [case mkdir_result env (Parent (to_path sp)) of
          Some e \<Rightarrow>
            (ERROR, Cat [Lit ''Could not save plot to '', OfPath (to_path sp), Lit '': '', OfExn e])
        | None \<Rightarrow>
            (case savefig_result env (to_path sp) of
               Some e \<Rightarrow>
                 (ERROR, Cat [Lit ''Could not save plot to '', OfPath (to_path sp), Lit '': '', OfExn e])
             | None \<Rightarrow> (INFO, Cat [Lit ''Overview plot saved to '', OfPath (to_path sp)]))]"
    by (simp add: save_plot_apply split: option.splits)
  ultimately show ?thesis
    by (intro conjI comprehensive_save grid_analysis_save data_analysis_save)
qed

text \<open>
  Saving to \<open>plots/overview.png\<close> where no directory can be made: the attempt is the only
  file-system event, the error is logged, and the comprehensive overview returns what it
  returns without a path. Where the file system accepts everything, the figure is written
  after the directory was made.
\<close>

theorem save_plot_contract_witness:
  "fst (save_plot readonly_fs plotter_with_grid (Str ''plots/overview.png'')
         (new_figure (20, 16) (4, 4) quiet_world)) = None \<and>
   fs_trace (world (snd (save_plot readonly_fs plotter_with_grid (Str ''plots/overview.png'')
         (new_figure (20, 16) (4, 4) quiet_world)))) =
     [Mkdir (Parent (Path ''plots/overview.png''))] \<and>
   logged (world (snd (save_plot readonly_fs plotter_with_grid (Str ''plots/overview.png'')
         (new_figure (20, 16) (4, 4) quiet_world)))) =
     [(ERROR, Cat [Lit ''Could not save plot to '', OfPath (Path ''plots/overview.png''),
                   Lit '': '', OfExn (Exception ''Permission denied'')])] \<and>
   fs_trace (world (snd (save_plot writable_fs plotter_with_grid (Str ''plots/overview.png'')
         (new_figure (20, 16) (4, 4) quiet_world)))) =
     [Mkdir (Parent (Path ''plots/overview.png'')),
      SaveFig (Path ''plots/overview.png'') 300
        \<lparr>figsize = (20, 16), gridspec = (4, 4), suptitle = None\<rparr> []] \<and>
   fst (plot_comprehensive_overview readonly_fs plotter_with_grid (20, 16) True True True
          (Some (Str ''plots/overview.png'')) [] quiet_world) =
   fst (plot_comprehensive_overview readonly_fs plotter_with_grid (20, 16) True True True
          None [] quiet_world)"
proof -
  note ro = save_plot_contract [of readonly_fs plotter_with_grid "Str ''plots/overview.png''"
      "new_figure (20, 16) (4, 4) quiet_world" "(20, 16)" True True True
      "Some (Str ''plots/overview.png'')" "[]" quiet_world]
  note rw = save_plot_contract [of writable_fs plotter_with_grid "Str ''plots/overview.png''"
      "new_figure (20, 16) (4, 4) quiet_world" "(20, 16)" True True True
      "Some (Str ''plots/overview.png'')" "[]" quiet_world]
  have a: "fst (save_plot readonly_fs plotter_with_grid (Str ''plots/overview.png'')
         (new_figure (20, 16) (4, 4) quiet_world)) = None"
    using ro by blast
  have b: "fs_trace (world (snd (save_plot readonly_fs plotter_with_grid (Str ''plots/overview.png'')
         (new_figure (20, 16) (4, 4) quiet_world)))) =
     [Mkdir (Parent (Path ''plots/overview.png''))]"
    using ro by (simp add: readonly_fs_def new_figure_def quiet_world_def)
  have c: "logged (world (snd (save_plot readonly_fs plotter_with_grid (Str ''plots/overview.png'')
         (new_figure (20, 16) (4, 4) quiet_world)))) =
     [(ERROR, Cat [Lit ''Could not save plot to '', OfPath (Path ''plots/overview.png''),
                   Lit '': '', OfExn (Exception ''Permission denied'')])]"
    using ro by (simp add: readonly_fs_def new_figure_def quiet_world_def)
  have d: "fs_trace (world (snd (save_plot writable_fs plotter_with_grid (Str ''plots/overview.png'')
         (new_figure (20, 16) (4, 4) quiet_world)))) =
     [Mkdir (Parent (Path ''plots/overview.png'')),
      SaveFig (Path ''plots/overview.png'') 300
        \<lparr>figsize = (20, 16), gridspec = (4, 4), suptitle = None\<rparr> []]"
    using rw by (simp add: writable_fs_def new_figure_def quiet_world_def plotter_with_grid_def)
  have e: "fst (plot_comprehensive_overview readonly_fs plotter_with_grid (20, 16) True True True
          (Some (Str ''plots/overview.png'')) [] quiet_world) =
      fst (plot_comprehensive_overview readonly_fs plotter_with_grid (20, 16) True True True
          None [] quiet_world)"
    using ro by (auto split: prod.splits sum.splits)
  show ?thesis using a b c d e by blast
qed

section \<open>A falsy \<open>save_path\<close>\<close>

lemma keeps_fs_call: "preserves (\<lambda>s. fs_trace (snd s)) (call c)"
  by (simp add: preserves_def call_def exec_def split: prod.splits)

lemma keeps_fs_draw: "preserves (\<lambda>s. fs_trace (snd s)) (draw cs)"
  by (simp add: preserves_def draw_def exec_def split: prod.splits)

lemma keeps_fs_log_warning: "preserves (\<lambda>s. fs_trace (snd s)) (log_warning m)"
  by (simp add: preserves_def log_warning_def exec_def split: prod.splits)

lemma keeps_fs_delegate: "preserves (\<lambda>s. fs_trace (snd s)) (delegate d)"
  by (simp add: preserves_def delegate_def split: prod.splits)

lemma keeps_fs_ax_table: "preserves (\<lambda>s. fs_trace (snd s)) (ax_table cells labels)"
  by (simp add: ax_table_def preserves_raise keeps_fs_call split: list.splits)

lemma keeps_fs_style_cell: "preserves (\<lambda>s. fs_trace (snd s)) (style_cell dims i j c b)"
  by (simp add: style_cell_def preserves_raise keeps_fs_call)

lemma get_grid_info_fs: "fs_trace (snd (get_grid_info self w)) = fs_trace w"
  by (simp add: get_grid_info_def split: option.splits sum.splits)

lemma calculate_grid_statistics_fs: "fs_trace (snd (calculate_grid_statistics self w)) = fs_trace w"
  by (simp add: calculate_grid_statistics_def Let_def split: option.splits sum.splits)

lemmas keeps_fs_intros =
  preserves_skip preserves_raise preserves_seq preserves_block preserves_try preserves_for_range
  keeps_fs_call keeps_fs_draw keeps_fs_log_warning keeps_fs_delegate keeps_fs_ax_table
  keeps_fs_style_cell

lemma keeps_fs_create_statistics_table:
  "preserves (\<lambda>s. fs_trace (snd s)) (create_statistics_table stats title)"
  by (auto simp: create_statistics_table_def Let_def intro!: keeps_fs_intros)

lemma keeps_fs_grid_info_step:
  "preserves (\<lambda>s. fs_trace (snd s))
     (\<lambda>(a, w). case get_grid_info self w of (grid_info, w') \<Rightarrow> call (TextBox grid_info) (a, w'))"
proof -
  have "fs_trace (snd (snd (call c (a, w')))) = fs_trace w'" for c a w'
    by (simp add: call_apply)
  then show ?thesis
    using get_grid_info_fs by (auto simp: preserves_def split: prod.splits) (metis snd_conv)
qed

lemma keeps_fs_statistics_step:
  "preserves (\<lambda>s. fs_trace (snd s))
     (\<lambda>(a, w). case calculate_grid_statistics self w of
                  (stats, w') \<Rightarrow> create_statistics_table stats t (a, w'))"
proof -
  have "fs_trace (snd (snd (create_statistics_table stats t (a, w')))) = fs_trace w'" for stats a w'
    using keeps_fs_create_statistics_table [of stats t] by (simp add: preserves_def)
  then show ?thesis
    using calculate_grid_statistics_fs by (auto simp: preserves_def split: prod.splits) (metis snd_conv)
qed

lemma keeps_fs_plot_main_grid_panel:
  "preserves (\<lambda>s. fs_trace (snd s)) (plot_main_grid_panel self kwargs)"
  by (auto simp: plot_main_grid_panel_def Let_def list_all_iff
      intro!: keeps_fs_intros keeps_fs_grid_info_step keeps_fs_statistics_step
        keeps_fs_create_statistics_table
      split: option.splits)

lemma keeps_fs_plot_boundary_panel:
  "preserves (\<lambda>s. fs_trace (snd s)) (plot_boundary_panel self kwargs)"
  by (auto simp: plot_boundary_panel_def Let_def list_all_iff
      intro!: keeps_fs_intros keeps_fs_grid_info_step keeps_fs_statistics_step
        keeps_fs_create_statistics_table
      split: option.splits)

lemma keeps_fs_plot_data_locations_panel:
  "preserves (\<lambda>s. fs_trace (snd s)) (plot_data_locations_panel self kwargs)"
  by (auto simp: plot_data_locations_panel_def add_data_source_markers_def Let_def list_all_iff
      intro!: keeps_fs_intros keeps_fs_grid_info_step keeps_fs_statistics_step
        keeps_fs_create_statistics_table
      split: option.splits)

lemma keeps_fs_plot_quality_metrics_panel:
  "preserves (\<lambda>s. fs_trace (snd s)) (plot_quality_metrics_panel self kwargs)"
  by (auto simp: plot_quality_metrics_panel_def plot_quality_metrics_chart_def Let_def list_all_iff
      intro!: keeps_fs_intros keeps_fs_grid_info_step keeps_fs_statistics_step
        keeps_fs_create_statistics_table
      split: option.splits)

lemma keeps_fs_plot_validation_panel:
  "preserves (\<lambda>s. fs_trace (snd s)) (plot_validation_panel self kwargs)"
  by (auto simp: plot_validation_panel_def plot_validation_results_def Let_def list_all_iff
      intro!: keeps_fs_intros keeps_fs_grid_info_step keeps_fs_statistics_step
        keeps_fs_create_statistics_table
      split: option.splits)

lemma keeps_fs_plot_data_summary_panel:
  "preserves (\<lambda>s. fs_trace (snd s)) (plot_data_summary_panel self kwargs)"
  by (auto simp: plot_data_summary_panel_def plot_data_summary_chart_def Let_def list_all_iff
      intro!: keeps_fs_intros keeps_fs_grid_info_step keeps_fs_statistics_step
        keeps_fs_create_statistics_table
      split: option.splits)

lemma keeps_fs_plot_timeseries_overview_panel:
  "preserves (\<lambda>s. fs_trace (snd s)) (plot_timeseries_overview_panel self kwargs)"
  by (auto simp: plot_timeseries_overview_panel_def plot_forcing_timeseries_overview_def Let_def list_all_iff
      intro!: keeps_fs_intros keeps_fs_grid_info_step keeps_fs_statistics_step
        keeps_fs_create_statistics_table
      split: option.splits)

lemma keeps_fs_plot_model_info_panel:
  "preserves (\<lambda>s. fs_trace (snd s)) (plot_model_info_panel self kwargs)"
  by (auto simp: plot_model_info_panel_def plot_model_info_table_def Let_def list_all_iff
      intro!: keeps_fs_intros keeps_fs_grid_info_step keeps_fs_statistics_step
        keeps_fs_create_statistics_table
      split: option.splits)

lemma keeps_fs_plot_depth_histogram:
  "preserves (\<lambda>s. fs_trace (snd s)) (plot_depth_histogram self kwargs)"
  by (auto simp: plot_depth_histogram_def Let_def list_all_iff
      intro!: keeps_fs_intros keeps_fs_grid_info_step keeps_fs_statistics_step
        keeps_fs_create_statistics_table
      split: option.splits)

lemma keeps_fs_plot_element_size_histogram:
  "preserves (\<lambda>s. fs_trace (snd s)) (plot_element_size_histogram self kwargs)"
  by (auto simp: plot_element_size_histogram_def Let_def list_all_iff
      intro!: keeps_fs_intros keeps_fs_grid_info_step keeps_fs_statistics_step
        keeps_fs_create_statistics_table
      split: option.splits)

lemma keeps_fs_plot_grid_statistics_table:
  "preserves (\<lambda>s. fs_trace (snd s)) (plot_grid_statistics_table self kwargs)"
  by (auto simp: plot_grid_statistics_table_def Let_def list_all_iff
      intro!: keeps_fs_intros keeps_fs_grid_info_step keeps_fs_statistics_step
        keeps_fs_create_statistics_table
      split: option.splits)

lemma keeps_fs_plot_atmospheric_overview:
  "preserves (\<lambda>s. fs_trace (snd s)) (plot_atmospheric_overview self kwargs)"
  by (auto simp: plot_atmospheric_overview_def Let_def list_all_iff
      intro!: keeps_fs_intros keeps_fs_grid_info_step keeps_fs_statistics_step
        keeps_fs_create_statistics_table
      split: option.splits)

lemma keeps_fs_plot_boundary_data_locations:
  "preserves (\<lambda>s. fs_trace (snd s)) (plot_boundary_data_locations self kwargs)"
  by (auto simp: plot_boundary_data_locations_def Let_def list_all_iff
      intro!: keeps_fs_intros keeps_fs_grid_info_step keeps_fs_statistics_step
        keeps_fs_create_statistics_table
      split: option.splits)

lemma keeps_fs_plot_data_coverage_timeline:
  "preserves (\<lambda>s. fs_trace (snd s)) (plot_data_coverage_timeline self kwargs)"
  by (auto simp: plot_data_coverage_timeline_def Let_def list_all_iff
      intro!: keeps_fs_intros keeps_fs_grid_info_step keeps_fs_statistics_step
        keeps_fs_create_statistics_table
      split: option.splits)

lemma keeps_fs_plot_atmospheric_timeseries_overview:
  "preserves (\<lambda>s. fs_trace (snd s)) (plot_atmospheric_timeseries_overview self kwargs)"
  by (auto simp: plot_atmospheric_timeseries_overview_def Let_def list_all_iff
      intro!: keeps_fs_intros keeps_fs_grid_info_step keeps_fs_statistics_step
        keeps_fs_create_statistics_table
      split: option.splits)

lemma keeps_fs_plot_boundary_timeseries_overview:
  "preserves (\<lambda>s. fs_trace (snd s)) (plot_boundary_timeseries_overview self kwargs)"
  by (auto simp: plot_boundary_timeseries_overview_def Let_def list_all_iff
      intro!: keeps_fs_intros keeps_fs_grid_info_step keeps_fs_statistics_step
        keeps_fs_create_statistics_table
      split: option.splits)

lemma keeps_fs_plot_data_quality_metrics:
  "preserves (\<lambda>s. fs_trace (snd s)) (plot_data_quality_metrics self kwargs)"
  by (auto simp: plot_data_quality_metrics_def data_quality_chart_def Let_def list_all_iff
      intro!: keeps_fs_intros keeps_fs_grid_info_step keeps_fs_statistics_step
        keeps_fs_create_statistics_table
      split: option.splits)

lemma keeps_fs_plot_data_statistics_table:
  "preserves (\<lambda>s. fs_trace (snd s)) (plot_data_statistics_table self kwargs)"
  by (auto simp: plot_data_statistics_table_def Let_def list_all_iff
      intro!: keeps_fs_intros keeps_fs_grid_info_step keeps_fs_statistics_step
        keeps_fs_create_statistics_table
      split: option.splits)

lemmas panels_keep_fs =
  keeps_fs_plot_main_grid_panel
  keeps_fs_plot_boundary_panel
  keeps_fs_plot_data_locations_panel
  keeps_fs_plot_quality_metrics_panel
  keeps_fs_plot_validation_panel
  keeps_fs_plot_data_summary_panel
  keeps_fs_plot_timeseries_overview_panel
  keeps_fs_plot_model_info_panel
  keeps_fs_plot_depth_histogram
  keeps_fs_plot_element_size_histogram
  keeps_fs_plot_grid_statistics_table
  keeps_fs_plot_atmospheric_overview
  keeps_fs_plot_boundary_data_locations
  keeps_fs_plot_data_coverage_timeline
  keeps_fs_plot_atmospheric_timeseries_overview
  keeps_fs_plot_boundary_timeseries_overview
  keeps_fs_plot_data_quality_metrics
  keeps_fs_plot_data_statistics_table

lemma keeps_fs_on_axes:
  "preserves (\<lambda>s. fs_trace (snd s)) p \<Longrightarrow> preserves (\<lambda>s. fs_trace (world s)) (on_axes n p)"
  by (auto simp: preserves_def on_axes_def split: option.splits prod.splits) (metis snd_conv)

lemma keeps_fs_add_subplot: "preserves (\<lambda>s. fs_trace (world s)) (add_subplot n sl pr)"
  by (simp add: preserves_def add_subplot_apply)

lemma keeps_fs_fig_suptitle: "preserves (\<lambda>s. fs_trace (world s)) (fig_suptitle t)"
  by (simp add: preserves_def fig_suptitle_def exec_def)

lemma keeps_fs_no_save:
  "\<not> truthy save_path \<Longrightarrow> preserves (\<lambda>s. fs_trace (world s)) (save_if_requested env self save_path)"
  by (simp add: save_if_requested_def preserves_skip)

lemma world_of_return: "snd (return_fig_axes r) = world (snd r)"
  by (simp add: return_fig_axes_def split: prod.splits option.splits)

lemma block_keeps_fs:
  "list_all (preserves (\<lambda>s. fs_trace (world s))) cs \<Longrightarrow>
   fs_trace (snd (return_fig_axes (block cs s0))) = fs_trace (world s0)"
  using preserves_block [of "\<lambda>s. fs_trace (world s)" cs]
  by (simp add: world_of_return preserves_def)

lemmas composition_keeps_fs =
  keeps_fs_on_axes keeps_fs_add_subplot keeps_fs_fig_suptitle keeps_fs_no_save panels_keep_fs
  keeps_fs_delegate keeps_fs_call preserves_seq preserves_skip

lemma falsy_same_call:
  assumes "\<not> truthy save_path"
  shows "save_if_requested env self save_path = save_if_requested env self None"
  using assms by (simp add: save_if_requested_def)

text \<open>
  C10: when \<open>save_path\<close> is falsy (\<open>None\<close> or the empty string), each of the three
  composing calls is the call with \<open>save_path = None\<close>: same result, same world; and the
  file-system trace it leaves is the one it started from, so no directory was made and
  nothing was written. The save operation is therefore reached with a truthy \<open>save_path\<close>
  only.
\<close>

theorem falsy_save_path_skips_saving:
  assumes "\<not> truthy save_path"
  shows "plot_comprehensive_overview env self figsz include_validation include_quality_metrics
        include_data_summary save_path kwargs w =
      plot_comprehensive_overview env self figsz include_validation include_quality_metrics
        include_data_summary None kwargs w \<and>
     fs_trace (snd (plot_comprehensive_overview env self figsz include_validation
        include_quality_metrics include_data_summary save_path kwargs w)) = fs_trace w \<and>
     plot_grid_analysis_overview env self figsz save_path kwargs w =
       plot_grid_analysis_overview env self figsz None kwargs w \<and>
     fs_trace (snd (plot_grid_analysis_overview env self figsz save_path kwargs w)) = fs_trace w \<and>
     plot_data_analysis_overview env self figsz save_path kwargs w =
       plot_data_analysis_overview env self figsz None kwargs w \<and>
     fs_trace (snd (plot_data_analysis_overview env self figsz save_path kwargs w)) = fs_trace w"
proof -
  note same = falsy_same_call [OF assms]
  have c1: "plot_comprehensive_overview env self figsz include_validation include_quality_metrics
        include_data_summary save_path kwargs w =
      plot_comprehensive_overview env self figsz include_validation include_quality_metrics
        include_data_summary None kwargs w"
    by (simp add: plot_comprehensive_overview_def same)
  have g1: "plot_grid_analysis_overview env self figsz save_path kwargs w =
       plot_grid_analysis_overview env self figsz None kwargs w"
    by (simp add: plot_grid_analysis_overview_def same)
  have d1: "plot_data_analysis_overview env self figsz save_path kwargs w =
       plot_data_analysis_overview env self figsz None kwargs w"
    by (simp add: plot_data_analysis_overview_def same)
  have c2: "fs_trace (snd (plot_comprehensive_overview env self figsz include_validation
        include_quality_metrics include_data_summary save_path kwargs w)) =
        fs_trace (world (new_figure figsz (4, 4) w))"
    unfolding plot_comprehensive_overview_def
    by (rule block_keeps_fs) (simp add: composition_keeps_fs assms)
  have g2: "fs_trace (snd (plot_grid_analysis_overview env self figsz save_path kwargs w)) =
        fs_trace (world (new_figure figsz (3, 3) w))"
    unfolding plot_grid_analysis_overview_def
    by (rule block_keeps_fs) (simp add: composition_keeps_fs assms)
  have d2: "fs_trace (snd (plot_data_analysis_overview env self figsz save_path kwargs w)) =
        fs_trace (world (new_figure figsz (3, 3) w))"
    unfolding plot_data_analysis_overview_def
    by (rule block_keeps_fs) (simp add: composition_keeps_fs assms)
  show ?thesis
    using c1 c2 g1 g2 d1 d2 by (simp add: new_figure_def)
qed

text \<open>
  The empty string and \<open>None\<close> are both falsy, and the calls with them touch no file.
\<close>

theorem falsy_save_path_skips_saving_witness:
  "\<not> truthy (Some (Str '''')) \<and>
   plot_comprehensive_overview writable_fs plotter_with_grid (20, 16) True True True
       (Some (Str '''')) [] quiet_world =
     plot_comprehensive_overview writable_fs plotter_with_grid (20, 16) True True True
       None [] quiet_world \<and>
   fs_trace (snd (plot_comprehensive_overview writable_fs plotter_with_grid (20, 16) True True True
       (Some (Str '''')) [] quiet_world)) = [] \<and>
   fs_trace (snd (plot_grid_analysis_overview writable_fs plotter_with_grid (20, 16)
       (Some (Str '''')) [] quiet_world)) = [] \<and>
   fs_trace (snd (plot_data_analysis_overview writable_fs plotter_with_grid (20, 16)
       (Some (Str '''')) [] quiet_world)) = [] \<and>
   \<not> truthy None \<and>
   fs_trace (snd (plot_comprehensive_overview writable_fs plotter_with_grid (20, 16) True True True
       None [] quiet_world)) = []"
proof -
  have f: "\<not> truthy (Some (Str ''''))" and n: "\<not> truthy None"
    by simp_all
  have q: "fs_trace quiet_world = []"
    by (simp add: quiet_world_def)
  show ?thesis
    using f n
      falsy_save_path_skips_saving [OF f, of writable_fs plotter_with_grid "(20, 16)" True True True
        "[]" quiet_world]
      falsy_save_path_skips_saving [OF n, of writable_fs plotter_with_grid "(20, 16)" True True True
        "[]" quiet_world]
    unfolding q by blast
qed

end
